theory Spec2Isabelle
  imports Main
begin

section \<open>JavaScript built-ins used by the codec\<close>

text \<open>
  Strings are ASCII character lists. Numbers that the code uses as counts, offsets and
  timestamps are integers; \<^verbatim>\<open>10 ** decimals\<close> is the exact power of ten for
  \<^verbatim>\<open>decimals <= 22\<close>, which covers the decimals count the code passes (18) and those
  of the properties below. BigInt values are \<^typ>\<open>int\<close>.
  Every exception the code can raise is a value of \<^verbatim>\<open>js_error\<close>; a function that can
  throw returns \<^verbatim>\<open>js_error + 'a\<close> with \<^const>\<open>Inl\<close> for the exception.
\<close>

datatype js_error =
    SyntaxError
  | TypeError
  | RangeError
  | Error string
  | NodeOperationError string
  | NodeApiError string string

text \<open>A value of type \<^verbatim>\<open>string | number | bigint\<close>, or \<^verbatim>\<open>undefined\<close>.\<close>

datatype js_prim = PUndefined | PString string | PNumber int | PBigInt int

definition startsWith :: "string \<Rightarrow> string \<Rightarrow> bool" where
  "startsWith s p = (take (length p) s = p)"

text \<open>
  \<^verbatim>\<open>s.slice(a, b)\<close>, of a string or an array: negative indices count from the end, all are
  clamped.
\<close>

definition js_slice :: "'a list \<Rightarrow> int \<Rightarrow> int \<Rightarrow> 'a list" where
  "js_slice s a b =
     (let n = int (length s);
          from = (if a < 0 then max (n + a) 0 else min a n);
          to = (if b < 0 then max (n + b) 0 else min b n)
      in take (nat (to - from)) (drop (nat from) s))"

definition padStart :: "nat \<Rightarrow> char \<Rightarrow> string \<Rightarrow> string" where
  "padStart n c s = replicate (n - length s) c @ s"

definition padEnd :: "nat \<Rightarrow> char \<Rightarrow> string \<Rightarrow> string" where
  "padEnd n c s = s @ replicate (n - length s) c"

definition lower_char :: "char \<Rightarrow> char" where
  "lower_char c =
     (case map_of (zip ''ABCDEFGHIJKLMNOPQRSTUVWXYZ'' ''abcdefghijklmnopqrstuvwxyz'') c of
        None \<Rightarrow> c
      | Some l \<Rightarrow> l)"

definition toLowerCase :: "string \<Rightarrow> string" where
  "toLowerCase s = map lower_char s"

text \<open>The digit characters of \<^verbatim>\<open>toString(radix)\<close>, for a digit below 36.\<close>

definition digit_char :: "nat \<Rightarrow> char" where
  "digit_char d =
     (if d < 36 then ''0123456789abcdefghijklmnopqrstuvwxyz'' ! d else CHR ''?'')"

text \<open>\<^verbatim>\<open>Buffer.from(s).toString('hex')\<close>: two lowercase hex digits per byte.\<close>

definition byte_hex :: "char \<Rightarrow> string" where
  "byte_hex c = (let n = (of_char c :: nat) in [digit_char (n div 16), digit_char (n mod 16)])"

definition buffer_hex :: "string \<Rightarrow> string" where
  "buffer_hex s = concat (map byte_hex s)"

text \<open>\<^verbatim>\<open>xs.join(sep)\<close> and \<^verbatim>\<open>s.split(sep)\<close> for a one-character separator.\<close>

fun js_join :: "string \<Rightarrow> string list \<Rightarrow> string" where
  "js_join sep [] = []"
| "js_join sep [x] = x"
| "js_join sep (x # y # ys) = x @ sep @ js_join sep (y # ys)"

fun js_split :: "char \<Rightarrow> string \<Rightarrow> string list" where
  "js_split sep [] = [[]]"
| "js_split sep (c # cs) =
     (if c = sep then [] # js_split sep cs
      else (case js_split sep cs of [] \<Rightarrow> [[c]] | p # ps \<Rightarrow> (c # p) # ps))"

text \<open>\<^verbatim>\<open>xs[i]\<close>: \<^verbatim>\<open>undefined\<close> (here \<^const>\<open>None\<close>) out of range.\<close>

definition js_index :: "'a list \<Rightarrow> nat \<Rightarrow> 'a option" where
  "js_index xs i = (if i < length xs then Some (xs ! i) else None)"

text \<open>\<^verbatim>\<open>v || d\<close> on a possibly undefined string: the empty string is falsy.\<close>

definition js_or :: "string option \<Rightarrow> string \<Rightarrow> string" where
  "js_or v d = (case v of None \<Rightarrow> d | Some s \<Rightarrow> if s = [] then d else s)"

definition is_space :: "char \<Rightarrow> bool" where
  "is_space c = ((of_char c :: nat) \<in> {9, 10, 11, 12, 13, 32})"

definition js_trim :: "string \<Rightarrow> string" where
  "js_trim s = rev (dropWhile is_space (rev (dropWhile is_space s)))"

text \<open>\<^verbatim>\<open>s.replace(/0+$/, '')\<close>: drops the trailing zeros.\<close>

definition strip_trailing_zeros :: "string \<Rightarrow> string" where
  "strip_trailing_zeros s = rev (dropWhile (\<lambda>c. c = CHR ''0'') (rev s))"

subsection \<open>BigInt: printing and parsing\<close>

function to_digits :: "nat \<Rightarrow> nat \<Rightarrow> string" where
  "to_digits b n =
     (if n < b \<or> b < 2 then [digit_char n] else to_digits b (n div b) @ [digit_char (n mod b)])"
  by pat_completeness auto
termination
  by (relation "measure snd") auto

declare to_digits.simps [simp del]

text \<open>\<^verbatim>\<open>n.toString(radix)\<close> for a BigInt; the code passes radix 10 and 16.\<close>

definition bigint_toString :: "nat \<Rightarrow> int \<Rightarrow> string" where
  "bigint_toString radix n =
     (if n < 0 then CHR ''-'' # to_digits radix (nat (- n)) else to_digits radix (nat n))"

definition digit_val :: "char \<Rightarrow> nat option" where
  "digit_val c =
     (let n = (of_char c :: nat) in
      if 48 \<le> n \<and> n \<le> 57 then Some (n - 48)
      else if 97 \<le> n \<and> n \<le> 102 then Some (n - 87)
      else if 65 \<le> n \<and> n \<le> 70 then Some (n - 55)
      else None)"

definition digit_in :: "nat \<Rightarrow> char \<Rightarrow> bool" where
  "digit_in radix c = (case digit_val c of None \<Rightarrow> False | Some d \<Rightarrow> d < radix)"

definition digit_num :: "char \<Rightarrow> nat" where
  "digit_num c = (case digit_val c of None \<Rightarrow> 0 | Some d \<Rightarrow> d)"

definition digits_value :: "nat \<Rightarrow> string \<Rightarrow> nat" where
  "digits_value radix ds = foldl (\<lambda>acc c. acc * radix + digit_num c) 0 ds"

definition parse_digits :: "nat \<Rightarrow> string \<Rightarrow> js_error + int" where
  "parse_digits radix ds =
     (if ds \<noteq> [] \<and> list_all (digit_in radix) ds then Inr (int (digits_value radix ds))
      else Inl SyntaxError)"

text \<open>
  \<^verbatim>\<open>BigInt(s)\<close> for a string (StringToBigInt): surrounding white space is dropped, the
  empty string is zero, a prefix selects radix 16, 8 or 2, a decimal literal may carry a
  sign, and anything else is a SyntaxError.
\<close>

definition StringToBigInt :: "string \<Rightarrow> js_error + int" where
  "StringToBigInt s =
     (let t = js_trim s in
      if t = [] then Inr 0
      else if startsWith t ''0x'' \<or> startsWith t ''0X'' then parse_digits 16 (drop 2 t)
      else if startsWith t ''0o'' \<or> startsWith t ''0O'' then parse_digits 8 (drop 2 t)
      else if startsWith t ''0b'' \<or> startsWith t ''0B'' then parse_digits 2 (drop 2 t)
      else if startsWith t ''+'' then parse_digits 10 (drop 1 t)
      else if startsWith t ''-'' then map_sum id uminus (parse_digits 10 (drop 1 t))
      else parse_digits 10 t)"

text \<open>\<^verbatim>\<open>BigInt(v)\<close>: a number here is integral, so the conversion is exact.\<close>

fun BigInt :: "js_prim \<Rightarrow> js_error + int" where
  "BigInt (PBigInt n) = Inr n"
| "BigInt (PNumber n) = Inr n"
| "BigInt (PString s) = StringToBigInt s"
| "BigInt PUndefined = Inl TypeError"

text \<open>BigInt division truncates towards zero; the remainder has the dividend's sign.\<close>

definition bigint_div :: "int \<Rightarrow> int \<Rightarrow> int" where
  "bigint_div a b = sgn a * sgn b * (\<bar>a\<bar> div \<bar>b\<bar>)"

definition bigint_rem :: "int \<Rightarrow> int \<Rightarrow> int" where
  "bigint_rem a b = sgn a * (\<bar>a\<bar> mod \<bar>b\<bar>)"

fun bit_length :: "nat \<Rightarrow> nat" where
  "bit_length n = (if n = 0 then 0 else Suc (bit_length (n div 2)))"

declare bit_length.simps [simp del]

text \<open>
  \<^verbatim>\<open>Number(n)\<close> for a BigInt: the nearest double, ties to even. Exact up to 53 bits;
  the result is again an integer (below \<^verbatim>\<open>2 ^ 1024\<close>, which every decoded word is).
\<close>

definition Number_of_BigInt :: "int \<Rightarrow> int" where
  "Number_of_BigInt n =
     (let a = nat \<bar>n\<bar>; len = bit_length a in
      if len \<le> 53 then n
      else
        (let e = len - 53; q = a div 2 ^ e; r = a mod 2 ^ e; half = 2 ^ (e - 1);
             q' = (if half < r \<or> (r = half \<and> odd q) then q + 1 else q)
         in sgn n * int (q' * 2 ^ e)))"

section \<open>Constants: the network registry\<close>

text \<open>
  \<^verbatim>\<open>NETWORK_CONFIGS\<close> is a \<^verbatim>\<open>Record<string, NetworkConfig>\<close>, written as an object literal:
  an association list of its twenty own keys, in the order of the source. The optional fields
  of an entry are undefined (\<^verbatim>\<open>None\<close>) when the literal does not give them.
\<close>

record NetworkConfig =
  chainId :: int
  name :: string
  explorerUrl :: string
  dapiServerAddress :: string
  api3TokenAddress :: "string option"
  stakingPoolAddress :: "string option"
  governanceAddress :: "string option"

definition plain_network :: "int \<Rightarrow> string \<Rightarrow> string \<Rightarrow> NetworkConfig" where
  "plain_network cid nm url =
     \<lparr>chainId = cid, name = nm, explorerUrl = url,
      dapiServerAddress = ''0x3dEC619dc529363767dEe9E71d8dD1A5bc270D76'',
      api3TokenAddress = None, stakingPoolAddress = None, governanceAddress = None\<rparr>"

definition ethereum_config :: NetworkConfig where
  "ethereum_config =
     \<lparr>chainId = 1, name = ''Ethereum Mainnet'', explorerUrl = ''https://etherscan.io'',
      dapiServerAddress = ''0x3dEC619dc529363767dEe9E71d8dD1A5bc270D76'',
      api3TokenAddress = Some ''0x0b38210ea11411557c13457D4dA7dC6ea731B88a'',
      stakingPoolAddress = Some ''0x6dd655f10d4b9E242aE186D9050B68F725c76d76'',
      governanceAddress = Some ''0x1d7573de8b3cF1c5B0e16be54a0E20a78B8e5e6e4''\<rparr>"

definition NETWORK_CONFIGS :: "(string \<times> NetworkConfig) list" where
  "NETWORK_CONFIGS =
     [(''ethereum'', ethereum_config),
      (''polygon'', plain_network 137 ''Polygon'' ''https://polygonscan.com''),
      (''arbitrum'', plain_network 42161 ''Arbitrum One'' ''https://arbiscan.io''),
      (''arbitrum-nova'', plain_network 42170 ''Arbitrum Nova'' ''https://nova.arbiscan.io''),
      (''optimism'', plain_network 10 ''Optimism'' ''https://optimistic.etherscan.io''),
      (''avalanche'', plain_network 43114 ''Avalanche C-Chain'' ''https://snowtrace.io''),
      (''bsc'', plain_network 56 ''BNB Smart Chain'' ''https://bscscan.com''),
      (''base'', plain_network 8453 ''Base'' ''https://basescan.org''),
      (''gnosis'', plain_network 100 ''Gnosis'' ''https://gnosisscan.io''),
      (''fantom'', plain_network 250 ''Fantom'' ''https://ftmscan.com''),
      (''zksync'', plain_network 324 ''zkSync Era'' ''https://explorer.zksync.io''),
      (''scroll'', plain_network 534352 ''Scroll'' ''https://scrollscan.com''),
      (''linea'', plain_network 59144 ''Linea'' ''https://lineascan.build''),
      (''mantle'', plain_network 5000 ''Mantle'' ''https://explorer.mantle.xyz''),
      (''moonbeam'', plain_network 1284 ''Moonbeam'' ''https://moonscan.io''),
      (''moonriver'', plain_network 1285 ''Moonriver'' ''https://moonriver.moonscan.io''),
      (''celo'', plain_network 42220 ''Celo'' ''https://celoscan.io''),
      (''goerli'', plain_network 5 ''Goerli Testnet'' ''https://goerli.etherscan.io''),
      (''sepolia'', plain_network 11155111 ''Sepolia Testnet'' ''https://sepolia.etherscan.io''),
      (''mumbai'', plain_network 80001 ''Mumbai Testnet'' ''https://mumbai.polygonscan.com'')]"

text \<open>
  A lookup \<^verbatim>\<open>NETWORK_CONFIGS[network]\<close> reads a property of a plain object: an own key gives
  its entry, the name of a member of \<^verbatim>\<open>Object.prototype\<close> gives that inherited member (a
  function, or the prototype object for \<^verbatim>\<open>__proto__\<close>), and every other name gives
  undefined. An inherited member is truthy and has none of the fields \<^verbatim>\<open>explorerUrl\<close>,
  \<^verbatim>\<open>dapiServerAddress\<close>, \<^verbatim>\<open>api3TokenAddress\<close>, \<^verbatim>\<open>stakingPoolAddress\<close> and
  \<^verbatim>\<open>governanceAddress\<close>: reading one of them gives undefined.
\<close>

definition Object_prototype_names :: "string list" where
  "Object_prototype_names =
     [''constructor'', ''__defineGetter__'', ''__defineSetter__'', ''hasOwnProperty'',
      ''__lookupGetter__'', ''__lookupSetter__'', ''isPrototypeOf'', ''propertyIsEnumerable'',
      ''toString'', ''valueOf'', ''__proto__'', ''toLocaleString'']"

datatype registry_value = OwnEntry NetworkConfig | InheritedMember string

definition registry_lookup :: "string \<Rightarrow> registry_value option" where
  "registry_lookup network =
     (case map_of NETWORK_CONFIGS network of
        Some config \<Rightarrow> Some (OwnEntry config)
      | None \<Rightarrow>
          if network \<in> set Object_prototype_names then Some (InheritedMember network)
          else None)"

fun get_explorerUrl :: "registry_value \<Rightarrow> string option" where
  "get_explorerUrl (OwnEntry config) = Some (explorerUrl config)"
| "get_explorerUrl (InheritedMember m) = None"

fun get_dapiServerAddress :: "registry_value \<Rightarrow> string option" where
  "get_dapiServerAddress (OwnEntry config) = Some (dapiServerAddress config)"
| "get_dapiServerAddress (InheritedMember m) = None"

fun get_api3TokenAddress :: "registry_value \<Rightarrow> string option" where
  "get_api3TokenAddress (OwnEntry config) = api3TokenAddress config"
| "get_api3TokenAddress (InheritedMember m) = None"

fun get_governanceAddress :: "registry_value \<Rightarrow> string option" where
  "get_governanceAddress (OwnEntry config) = governanceAddress config"
| "get_governanceAddress (InheritedMember m) = None"

text \<open>A value inside a template literal: undefined is printed as \<^verbatim>\<open>undefined\<close>.\<close>

definition template_text :: "string option \<Rightarrow> string" where
  "template_text v = (case v of None \<Rightarrow> ''undefined'' | Some s \<Rightarrow> s)"

definition DEFAULT_DECIMALS :: nat where
  "DEFAULT_DECIMALS = 18"

section \<open>Transport: the contract-call codec\<close>

text \<open>
  The table of \<^verbatim>\<open>simpleKeccak256\<close>, in the order of the source. The function is private to
  the module and its one caller, \<^verbatim>\<open>getFunctionSelector\<close>, passes a signature that ends with a
  closing parenthesis, which no member of \<^verbatim>\<open>Object.prototype\<close> does: the lookup
  \<^verbatim>\<open>precomputed[input]\<close> is a lookup among the keys of the table.
\<close>

definition precomputed :: "(string \<times> string) list" where
  "precomputed =
     [(''readDataFeedWithDapiName(bytes32)'', ''0x82a0cf08''),
      (''readDataFeedWithId(bytes32)'', ''0x47bd3e9e''),
      (''dapiNameToDataFeedId(bytes32)'', ''0x6cc5f9b0''),
      (''balanceOf(address)'', ''0x70a08231''),
      (''totalSupply()'', ''0x18160ddd''),
      (''transfer(address,uint256)'', ''0xa9059cbb''),
      (''userStake(address)'', ''0x66666aa9''),
      (''totalStake()'', ''0x8b0e9f3f''),
      (''stake(uint256)'', ''0xa694fc3a''),
      (''unstake()'', ''0x2def6620''),
      (''apr()'', ''0x37965dbe''),
      (''getUserReward(address)'', ''0x44fa9a7a''),
      (''claimReward()'', ''0xb88a802f'')]"

definition simpleKeccak256 :: "string \<Rightarrow> string" where
  "simpleKeccak256 input = js_or (map_of precomputed input) ''0x00000000''"

definition getFunctionSelector :: "string \<Rightarrow> string list \<Rightarrow> string" where
  "getFunctionSelector functionName types =
     (let signature = functionName @ ''('' @ js_join '','' types @ '')'';
          hash = simpleKeccak256 signature
      in js_slice hash 0 10)"

definition encodeBytes32 :: "string \<Rightarrow> string" where
  "encodeBytes32 v =
     (if startsWith v ''0x'' then padEnd 64 CHR ''0'' (drop 2 v)
      else padEnd 64 CHR ''0'' (buffer_hex v))"

definition encodeAddress :: "string \<Rightarrow> string" where
  "encodeAddress v =
     (let addr = (if startsWith v ''0x'' then drop 2 v else v)
      in padStart 64 CHR ''0'' (toLowerCase addr))"

definition encodeUint256 :: "js_prim \<Rightarrow> js_error + string" where
  "encodeUint256 v =
     (case BigInt v of
        Inl e \<Rightarrow> Inl e
      | Inr bn \<Rightarrow> Inr (padStart 64 CHR ''0'' (bigint_toString 16 bn)))"

text \<open>
  One round of the loop of \<^verbatim>\<open>encodeParameters\<close>. The casts \<^verbatim>\<open>value as string\<close> check
  nothing: calling \<^verbatim>\<open>startsWith\<close> on a value that is not a string is a TypeError. A type
  tag other than the three is skipped and adds nothing.
\<close>

definition encodeParameter :: "string \<Rightarrow> js_prim \<Rightarrow> js_error + string" where
  "encodeParameter ty v =
     (if ty = ''bytes32'' then
        (case v of PString s \<Rightarrow> Inr (encodeBytes32 s) | _ \<Rightarrow> Inl TypeError)
      else if ty = ''address'' then
        (case v of PString s \<Rightarrow> Inr (encodeAddress s) | _ \<Rightarrow> Inl TypeError)
      else if ty = ''uint256'' then encodeUint256 v
      else Inr [])"

text \<open>The loop, with \<^verbatim>\<open>encoded\<close> as accumulator; \<^verbatim>\<open>values[i]\<close> is undefined past the end.\<close>

fun encodeParameters_loop :: "string list \<Rightarrow> js_prim list \<Rightarrow> string \<Rightarrow> js_error + string" where
  "encodeParameters_loop [] vs encoded = Inr encoded"
| "encodeParameters_loop (ty # tys) [] encoded =
     (case encodeParameter ty PUndefined of
        Inl e \<Rightarrow> Inl e
      | Inr w \<Rightarrow> encodeParameters_loop tys [] (encoded @ w))"
| "encodeParameters_loop (ty # tys) (v # vs) encoded =
     (case encodeParameter ty v of
        Inl e \<Rightarrow> Inl e
      | Inr w \<Rightarrow> encodeParameters_loop tys vs (encoded @ w))"

definition encodeParameters :: "string list \<Rightarrow> js_prim list \<Rightarrow> js_error + string" where
  "encodeParameters types vals = encodeParameters_loop types vals []"

definition encodeFunctionCall :: "string \<Rightarrow> string list \<Rightarrow> js_prim list \<Rightarrow> js_error + string" where
  "encodeFunctionCall functionName types vals =
     (let selector = getFunctionSelector functionName types in
      case encodeParameters types vals of
        Inl e \<Rightarrow> Inl e
      | Inr encodedParams \<Rightarrow> Inr (selector @ encodedParams))"

definition strip0x :: "string \<Rightarrow> string" where
  "strip0x hex = (if startsWith hex ''0x'' then drop 2 hex else hex)"

definition decodeInt224 :: "string \<Rightarrow> js_error + int" where
  "decodeInt224 hex =
     (let clean = strip0x hex; valueHex = js_slice clean 0 64
      in StringToBigInt (''0x'' @ valueHex))"

text \<open>The offset is optional in the source: 64 for \<^verbatim>\<open>decodeUint32\<close>, 0 for \<^verbatim>\<open>decodeUint256\<close>.\<close>

definition decodeUint32 :: "string \<Rightarrow> int option \<Rightarrow> js_error + int" where
  "decodeUint32 hex off =
     (let offset = (case off of None \<Rightarrow> 64 | Some k \<Rightarrow> k);
          clean = strip0x hex; valueHex = js_slice clean offset (offset + 64)
      in map_sum id Number_of_BigInt (StringToBigInt (''0x'' @ valueHex)))"

definition decodeUint256 :: "string \<Rightarrow> int option \<Rightarrow> js_error + int" where
  "decodeUint256 hex off =
     (let offset = (case off of None \<Rightarrow> 0 | Some k \<Rightarrow> k);
          clean = strip0x hex; valueHex = js_slice clean offset (offset + 64)
      in StringToBigInt (''0x'' @ valueHex))"

definition formatValue :: "int \<Rightarrow> nat \<Rightarrow> string" where
  "formatValue v decimals =
     (let divisor = 10 ^ decimals;
          integerPart = bigint_div v divisor;
          fractionalPart = bigint_rem v divisor;
          fractionalStr = padStart decimals CHR ''0'' (bigint_toString 10 fractionalPart)
      in bigint_toString 10 integerPart @ ''.'' @ fractionalStr)"

definition dapiNameToBytes32 :: "string \<Rightarrow> string" where
  "dapiNameToBytes32 nm = ''0x'' @ padEnd 64 CHR ''0'' (buffer_hex nm)"

definition getNetworkConfig :: "string \<Rightarrow> js_error + registry_value" where
  "getNetworkConfig network =
     (case registry_lookup network of
        None \<Rightarrow> Inl (Error (''Unsupported network: '' @ network))
      | Some config \<Rightarrow> Inr config)"

section \<open>Helpers\<close>

definition is_hex_char :: "char \<Rightarrow> bool" where
  "is_hex_char c = digit_in 16 c"

text \<open>\<^verbatim>\<open>/^0x[a-fA-F0-9]{40}$/\<close> and \<^verbatim>\<open>/^0x[a-fA-F0-9]{64}$/\<close>.\<close>

definition isValidAddress :: "string \<Rightarrow> bool" where
  "isValidAddress a = (startsWith a ''0x'' \<and> length a = 42 \<and> list_all is_hex_char (drop 2 a))"

definition isValidBytes32 :: "string \<Rightarrow> bool" where
  "isValidBytes32 v = (startsWith v ''0x'' \<and> length v = 66 \<and> list_all is_hex_char (drop 2 v))"

definition weiToEther :: "js_prim \<Rightarrow> js_error + string" where
  "weiToEther wei =
     (case BigInt wei of
        Inl e \<Rightarrow> Inl e
      | Inr v \<Rightarrow>
          (let divisor = 10 ^ 18;
               integerPart = bigint_div v divisor;
               fractionalPart = bigint_rem v divisor;
               fractionalStr = padStart 18 CHR ''0'' (bigint_toString 10 fractionalPart);
               trimmed = js_or (Some (strip_trailing_zeros fractionalStr)) ''0''
           in Inr (if fractionalStr = ''000000000000000000'' then bigint_toString 10 integerPart
                   else bigint_toString 10 integerPart @ ''.'' @ trimmed)))"

definition etherToWei :: "string \<Rightarrow> js_error + int" where
  "etherToWei ether =
     (let parts = js_split CHR ''.'' ether;
          integerPart = js_or (js_index parts 0) ''0'';
          fractionalPart = js_or (js_index parts 1) ''0'';
          fractionalPart' = js_slice (padEnd 18 CHR ''0'' fractionalPart) 0 18
      in StringToBigInt (integerPart @ fractionalPart'))"

definition formatWithDecimals :: "js_prim \<Rightarrow> nat \<Rightarrow> js_error + string" where
  "formatWithDecimals v decimals =
     (case BigInt v of
        Inl e \<Rightarrow> Inl e
      | Inr bn \<Rightarrow>
          (let divisor = 10 ^ decimals;
               integerPart = bigint_div bn divisor;
               fractionalPart = bigint_rem bn divisor
           in if fractionalPart = 0 then Inr (bigint_toString 10 integerPart)
              else
                (let fractionalStr = padStart decimals CHR ''0'' (bigint_toString 10 fractionalPart);
                     trimmed = strip_trailing_zeros fractionalStr
                 in Inr (bigint_toString 10 integerPart @ ''.'' @ trimmed))))"

definition parseWithDecimals :: "string \<Rightarrow> nat \<Rightarrow> js_error + int" where
  "parseWithDecimals v decimals =
     (let parts = js_split CHR ''.'' v;
          integerPart = js_or (js_index parts 0) ''0'';
          fractionalPart = js_or (js_index parts 1) ''0'';
          fractionalPart' = js_slice (padEnd decimals CHR ''0'' fractionalPart) 0 (int decimals)
      in StringToBigInt (integerPart @ fractionalPart'))"

definition supportsDAO :: "string \<Rightarrow> bool" where
  "supportsDAO network = (network = ''ethereum'')"

definition supportsStaking :: "string \<Rightarrow> bool" where
  "supportsStaking network = (network = ''ethereum'')"

definition getExplorerTxUrl :: "string \<Rightarrow> string \<Rightarrow> string" where
  "getExplorerTxUrl network txHash =
     (case registry_lookup network of
        None \<Rightarrow> []
      | Some config \<Rightarrow> template_text (get_explorerUrl config) @ ''/tx/'' @ txHash)"

definition getExplorerAddressUrl :: "string \<Rightarrow> string \<Rightarrow> string" where
  "getExplorerAddressUrl network address =
     (case registry_lookup network of
        None \<Rightarrow> []
      | Some config \<Rightarrow> template_text (get_explorerUrl config) @ ''/address/'' @ address)"

section \<open>Effects: requests, replies and the trace\<close>

text \<open>
  The host's \<^verbatim>\<open>httpRequest\<close> is the only effect of the code. A run carries the list of the
  requests issued so far; the host answers a request from that list and the request, so an
  answer may depend on what was asked before. An RPC answer follows the declared type
  \<^verbatim>\<open>RpcResponse\<close>: an error with code and message, or a result (absent, or a string). The
  \<^verbatim>\<open>to\<close> of a call object is absent (\<^verbatim>\<open>None\<close>) when the address passed is undefined. The
  answers of the REST service follow the types the handlers cast them to. What the code
  computes in floating point (the APR figures) and what the engine words (the message of a
  built-in error) are functions of the host.
\<close>

datatype rpc_param = CallObject "string option" string | BlockTag string

datatype request =
    RpcRequest string string "rpc_param list"
  | ApiRequest string string

datatype rpc_reply =
    RpcThrows string
  | RpcErrorReply int string
  | RpcResultReply "string option"

record api_proposal =
  ap_id :: string
  ap_title :: string
  ap_description :: string
  ap_proposer :: string
  ap_startTime :: int
  ap_endTime :: int
  ap_forVotes :: string
  ap_againstVotes :: string
  ap_abstainVotes :: "string option"
  ap_status :: string

record VoteRecord =
  vr_proposalId :: string
  vr_voter :: string
  vr_support :: string
  vr_votingPower :: string
  vr_timestamp :: int
  vr_transactionHash :: string

datatype api_json =
    ProposalsJson "api_proposal list option"
  | ProposalJson api_proposal
  | VotesJson "VoteRecord list option"

datatype api_reply = ApiThrows string | ApiReturns api_json

record host =
  host_rpc :: "request list \<Rightarrow> request \<Rightarrow> rpc_reply"
  host_api :: "request list \<Rightarrow> request \<Rightarrow> api_reply"
  host_now :: int
  apr_toFixed2 :: "int \<Rightarrow> string"
  apy_toFixed2 :: "int \<Rightarrow> string"
  rate_toFixed6 :: "int \<Rightarrow> string"
  engine_message :: "js_error \<Rightarrow> string"

type_synonym 'a io = "request list \<Rightarrow> (js_error + 'a) \<times> request list"

definition io_return :: "'a \<Rightarrow> 'a io" where
  "io_return x tr = (Inr x, tr)"

definition io_throw :: "js_error \<Rightarrow> 'a io" where
  "io_throw e tr = (Inl e, tr)"

definition io_lift :: "js_error + 'a \<Rightarrow> 'a io" where
  "io_lift r tr = (r, tr)"

definition io_bind :: "'a io \<Rightarrow> ('a \<Rightarrow> 'b io) \<Rightarrow> 'b io" where
  "io_bind m f tr = (case m tr of (Inl e, tr') \<Rightarrow> (Inl e, tr') | (Inr x, tr') \<Rightarrow> f x tr')"

text \<open>\<^verbatim>\<open>try { m } catch (e) { handler e }\<close>: the requests issued before the failure stay.\<close>

definition io_try :: "'a io \<Rightarrow> (js_error \<Rightarrow> 'a io) \<Rightarrow> 'a io" where
  "io_try m handler tr =
     (case m tr of (Inl e, tr') \<Rightarrow> handler e tr' | (Inr x, tr') \<Rightarrow> (Inr x, tr'))"

fun error_message :: "host \<Rightarrow> js_error \<Rightarrow> string" where
  "error_message h (Error m) = m"
| "error_message h (NodeOperationError m) = m"
| "error_message h (NodeApiError m d) = m"
| "error_message h e = engine_message h e"

text \<open>A method call on the result of an RPC (\<^verbatim>\<open>result as string\<close>): a TypeError when it is absent.\<close>

definition on_string :: "string option \<Rightarrow> (string \<Rightarrow> js_error + 'a) \<Rightarrow> js_error + 'a" where
  "on_string r f = (case r of None \<Rightarrow> Inl TypeError | Some s \<Rightarrow> f s)"

text \<open>\<^verbatim>\<open>!v\<close> for an optional string: absent or empty.\<close>

definition falsy :: "string option \<Rightarrow> bool" where
  "falsy v = (case v of None \<Rightarrow> True | Some s \<Rightarrow> s = [])"

subsection \<open>Transport: RPC and REST calls\<close>

definition makeRpcCall :: "host \<Rightarrow> string \<Rightarrow> string \<Rightarrow> rpc_param list \<Rightarrow> string option io" where
  "makeRpcCall h endpoint method params tr =
     (let req = RpcRequest endpoint method params in
      (case host_rpc h tr req of
         RpcThrows msg \<Rightarrow> Inl (NodeApiError msg ''Failed to make RPC call'')
       | RpcErrorReply code msg \<Rightarrow>
           Inl (NodeApiError msg (''RPC Error Code: '' @ bigint_toString 10 code))
       | RpcResultReply result \<Rightarrow> Inr result,
       tr @ [req]))"

definition makeEthCall :: "host \<Rightarrow> string \<Rightarrow> string option \<Rightarrow> string \<Rightarrow> string option io" where
  "makeEthCall h endpoint to calldata =
     makeRpcCall h endpoint ''eth_call'' [CallObject to calldata, BlockTag ''latest'']"

definition makeApiRequest :: "host \<Rightarrow> string \<Rightarrow> string \<Rightarrow> api_json io" where
  "makeApiRequest h method url tr =
     (let req = ApiRequest method url in
      (case host_api h tr req of
         ApiThrows msg \<Rightarrow> Inl (NodeApiError msg (''API request failed: '' @ url))
       | ApiReturns response \<Rightarrow> Inr response,
       tr @ [req]))"

definition readDAPIValue :: "host \<Rightarrow> string \<Rightarrow> string \<Rightarrow> string \<Rightarrow> (int \<times> int) io" where
  "readDAPIValue h endpoint network dapiName =
     io_bind (io_lift (getNetworkConfig network)) (\<lambda>config.
     io_bind (io_lift (encodeFunctionCall ''readDataFeedWithDapiName'' [''bytes32'']
                [PString (dapiNameToBytes32 dapiName)])) (\<lambda>calldata.
     io_bind (makeEthCall h endpoint (get_dapiServerAddress config) calldata) (\<lambda>result.
     io_bind (io_lift (on_string result decodeInt224)) (\<lambda>v.
     io_bind (io_lift (on_string result (\<lambda>s. decodeUint32 s (Some 64)))) (\<lambda>timestamp.
     io_return (v, timestamp))))))"

definition readDataFeedById :: "host \<Rightarrow> string \<Rightarrow> string \<Rightarrow> string \<Rightarrow> (int \<times> int) io" where
  "readDataFeedById h endpoint network feedId =
     io_bind (io_lift (getNetworkConfig network)) (\<lambda>config.
     io_bind (io_lift (encodeFunctionCall ''readDataFeedWithId'' [''bytes32'']
                [PString feedId])) (\<lambda>calldata.
     io_bind (makeEthCall h endpoint (get_dapiServerAddress config) calldata) (\<lambda>result.
     io_bind (io_lift (on_string result decodeInt224)) (\<lambda>v.
     io_bind (io_lift (on_string result (\<lambda>s. decodeUint32 s (Some 64)))) (\<lambda>timestamp.
     io_return (v, timestamp))))))"

definition getTokenBalance :: "host \<Rightarrow> string \<Rightarrow> string \<Rightarrow> string \<Rightarrow> int io" where
  "getTokenBalance h endpoint tokenAddress accountAddress =
     io_bind (io_lift (encodeFunctionCall ''balanceOf'' [''address''] [PString accountAddress]))
       (\<lambda>calldata.
     io_bind (makeEthCall h endpoint (Some tokenAddress) calldata) (\<lambda>result.
     io_lift (on_string result (\<lambda>s. decodeUint256 s None))))"

definition getTotalSupply :: "host \<Rightarrow> string \<Rightarrow> string \<Rightarrow> int io" where
  "getTotalSupply h endpoint tokenAddress =
     io_bind (io_lift (encodeFunctionCall ''totalSupply'' [] [])) (\<lambda>calldata.
     io_bind (makeEthCall h endpoint (Some tokenAddress) calldata) (\<lambda>result.
     io_lift (on_string result (\<lambda>s. decodeUint256 s None))))"

definition getUserStake :: "host \<Rightarrow> string \<Rightarrow> string \<Rightarrow> string \<Rightarrow> int io" where
  "getUserStake h endpoint stakingPool userAddress =
     io_bind (io_lift (encodeFunctionCall ''userStake'' [''address''] [PString userAddress]))
       (\<lambda>calldata.
     io_bind (makeEthCall h endpoint (Some stakingPool) calldata) (\<lambda>result.
     io_lift (on_string result (\<lambda>s. decodeUint256 s None))))"

definition getTotalStake :: "host \<Rightarrow> string \<Rightarrow> string \<Rightarrow> int io" where
  "getTotalStake h endpoint stakingPool =
     io_bind (io_lift (encodeFunctionCall ''totalStake'' [] [])) (\<lambda>calldata.
     io_bind (makeEthCall h endpoint (Some stakingPool) calldata) (\<lambda>result.
     io_lift (on_string result (\<lambda>s. decodeUint256 s None))))"

section \<open>Operation handlers\<close>

record credentials =
  cred_network :: string
  cred_rpcEndpoint :: string
  cred_privateKey :: "string option"
  cred_api3MarketApiKey :: "string option"
  cred_oevApiKey :: "string option"

definition API3_MARKET :: string where
  "API3_MARKET = ''https://market.api3.org/api''"

subsection \<open>Data feeds\<close>

record DataFeedValue =
  dfv_feedId :: string
  dfv_value :: string
  dfv_timestamp :: int
  dfv_formattedValue :: string
  dfv_decimals :: nat

definition invalid_feed_id :: js_error where
  "invalid_feed_id = NodeOperationError ''Invalid feed ID format. Must be a bytes32 value.''"

definition readDataFeedOperation :: "host \<Rightarrow> credentials \<Rightarrow> string \<Rightarrow> DataFeedValue io" where
  "readDataFeedOperation h cred fid =
     (if \<not> isValidBytes32 fid then io_throw invalid_feed_id
      else
        io_bind (readDataFeedById h (cred_rpcEndpoint cred) (cred_network cred) fid) (\<lambda>(v, ts).
        io_bind (io_lift (formatWithDecimals (PBigInt v) DEFAULT_DECIMALS)) (\<lambda>formatted.
        io_return \<lparr>dfv_feedId = fid, dfv_value = bigint_toString 10 v, dfv_timestamp = ts,
                   dfv_formattedValue = formatted, dfv_decimals = DEFAULT_DECIMALS\<rparr>)))"

text \<open>
  The loop of \<^verbatim>\<open>getMultipleFeedsOperation\<close>, with \<^verbatim>\<open>results\<close> as accumulator. An invalid
  feed id is passed over. For a valid one the \<^verbatim>\<open>try\<close> block makes the entry that is
  pushed, and the \<^verbatim>\<open>catch\<close> block (commented "Skip failed feeds") pushes an entry of zeros.
\<close>

fun getMultipleFeeds_loop ::
  "host \<Rightarrow> credentials \<Rightarrow> string list \<Rightarrow> DataFeedValue list \<Rightarrow> DataFeedValue list io" where
  "getMultipleFeeds_loop h cred [] results tr = (Inr results, tr)"
| "getMultipleFeeds_loop h cred (fid # fids) results tr =
     (if \<not> isValidBytes32 fid then getMultipleFeeds_loop h cred fids results tr
      else
        (case io_try
                (io_bind (readDataFeedById h (cred_rpcEndpoint cred) (cred_network cred) fid) (\<lambda>(v, ts).
                 io_bind (io_lift (formatWithDecimals (PBigInt v) DEFAULT_DECIMALS)) (\<lambda>formatted.
                 io_return \<lparr>dfv_feedId = fid, dfv_value = bigint_toString 10 v,
                            dfv_timestamp = ts, dfv_formattedValue = formatted,
                            dfv_decimals = DEFAULT_DECIMALS\<rparr>)))
                (\<lambda>error.
                 io_return \<lparr>dfv_feedId = fid, dfv_value = ''0'', dfv_timestamp = 0,
                            dfv_formattedValue = ''0'', dfv_decimals = DEFAULT_DECIMALS\<rparr>)
                tr of
           (Inl e, tr') \<Rightarrow> (Inl e, tr')
         | (Inr entry, tr') \<Rightarrow> getMultipleFeeds_loop h cred fids (results @ [entry]) tr'))"

definition getMultipleFeedsOperation ::
  "host \<Rightarrow> credentials \<Rightarrow> string \<Rightarrow> DataFeedValue list io" where
  "getMultipleFeedsOperation h cred feedIdsStr =
     (let feedIds = map js_trim (js_split CHR '','' feedIdsStr)
      in getMultipleFeeds_loop h cred feedIds [])"

subsection \<open>Staking (DAO)\<close>

record StakingInfo =
  si_totalStaked :: string
  si_apr :: string
  si_rewardRate :: string
  si_stakingPoolAddress :: string
  si_minStakeAmount :: string
  si_unstakingPeriod :: int
  si_totalStakers :: int

record UserStake =
  us_address :: string
  us_stakedAmount :: string
  us_shares :: string
  us_pendingRewards :: string
  us_lastStakeTimestamp :: int
  us_unstakingAmount :: string
  us_unstakingTimestamp :: int
  us_votingPower :: string

record Rewards =
  rw_address :: string
  rw_pendingRewards :: string
  rw_estimatedApr :: string

record AprInfo =
  ai_apr :: string
  ai_apy :: string
  ai_rewardRate :: string

definition staking_unsupported :: "string \<Rightarrow> js_error" where
  "staking_unsupported nw =
     NodeOperationError
       (''Staking is only available on Ethereum mainnet. Current network: '' @ nw)"

definition invalid_user_address :: js_error where
  "invalid_user_address = NodeOperationError ''Invalid user address format.''"

definition pool_not_configured :: js_error where
  "pool_not_configured = NodeOperationError ''Staking pool address not configured.''"

text \<open>
  The four staking reads. \<^verbatim>\<open>NETWORK_CONFIGS.ethereum\<close> is the lookup of the key in the
  registry; \<^verbatim>\<open>!config.stakingPoolAddress\<close> holds for an absent or empty address.
\<close>

definition getStakingInfoOperation :: "host \<Rightarrow> credentials \<Rightarrow> StakingInfo io" where
  "getStakingInfoOperation h cred =
     (if \<not> supportsStaking (cred_network cred) then io_throw (staking_unsupported (cred_network cred))
      else
        (case map_of NETWORK_CONFIGS ''ethereum'' of
           None \<Rightarrow> io_throw TypeError
         | Some config \<Rightarrow>
             (case stakingPoolAddress config of
                None \<Rightarrow> io_throw pool_not_configured
              | Some pool \<Rightarrow>
                  if pool = [] then io_throw pool_not_configured
                  else
                    io_bind (getTotalStake h (cred_rpcEndpoint cred) pool) (\<lambda>total.
                    io_bind
                      (io_try
                         (io_bind (io_lift (encodeFunctionCall ''apr'' [] [])) (\<lambda>calldata.
                          io_bind (makeEthCall h (cred_rpcEndpoint cred) (Some pool) calldata) (\<lambda>result.
                          io_bind (io_lift (on_string result (\<lambda>s. decodeUint256 s None)))
                            (\<lambda>aprValue.
                          io_return (apr_toFixed2 h aprValue)))))
                         (\<lambda>error. io_return ''0'')) (\<lambda>aprText.
                    io_bind (io_lift (weiToEther (PBigInt total))) (\<lambda>totalText.
                    io_return \<lparr>si_totalStaked = totalText, si_apr = aprText @ ''%'',
                               si_rewardRate = ''0'', si_stakingPoolAddress = pool,
                               si_minStakeAmount = ''1'', si_unstakingPeriod = 604800,
                               si_totalStakers = 0\<rparr>))))))"

definition getUserStakeOperation :: "host \<Rightarrow> credentials \<Rightarrow> string \<Rightarrow> UserStake io" where
  "getUserStakeOperation h cred userAddress =
     (if \<not> isValidAddress userAddress then io_throw invalid_user_address
      else if \<not> supportsStaking (cred_network cred) then io_throw (staking_unsupported (cred_network cred))
      else
        (case map_of NETWORK_CONFIGS ''ethereum'' of
           None \<Rightarrow> io_throw TypeError
         | Some config \<Rightarrow>
             (case stakingPoolAddress config of
                None \<Rightarrow> io_throw pool_not_configured
              | Some pool \<Rightarrow>
                  if pool = [] then io_throw pool_not_configured
                  else
                    io_bind (getUserStake h (cred_rpcEndpoint cred) pool userAddress) (\<lambda>staked.
                    io_bind
                      (io_try
                         (io_bind (io_lift (encodeFunctionCall ''getUserReward'' [''address'']
                                     [PString userAddress])) (\<lambda>calldata.
                          io_bind (makeEthCall h (cred_rpcEndpoint cred) (Some pool) calldata) (\<lambda>result.
                          io_lift (on_string result (\<lambda>s. decodeUint256 s None)))))
                         (\<lambda>error. io_return 0)) (\<lambda>pending.
                    io_bind (io_lift (weiToEther (PBigInt staked))) (\<lambda>stakedText.
                    io_bind (io_lift (weiToEther (PBigInt pending))) (\<lambda>pendingText.
                    io_return \<lparr>us_address = userAddress, us_stakedAmount = stakedText,
                               us_shares = stakedText, us_pendingRewards = pendingText,
                               us_lastStakeTimestamp = 0, us_unstakingAmount = ''0'',
                               us_unstakingTimestamp = 0, us_votingPower = stakedText\<rparr>)))))))"

definition getRewardsOperation :: "host \<Rightarrow> credentials \<Rightarrow> string \<Rightarrow> Rewards io" where
  "getRewardsOperation h cred userAddress =
     (if \<not> isValidAddress userAddress then io_throw invalid_user_address
      else if \<not> supportsStaking (cred_network cred) then io_throw (staking_unsupported (cred_network cred))
      else
        (case map_of NETWORK_CONFIGS ''ethereum'' of
           None \<Rightarrow> io_throw TypeError
         | Some config \<Rightarrow>
             (case stakingPoolAddress config of
                None \<Rightarrow> io_throw pool_not_configured
              | Some pool \<Rightarrow>
                  if pool = [] then io_throw pool_not_configured
                  else
                    io_bind
                      (io_try
                         (io_bind (io_lift (encodeFunctionCall ''getUserReward'' [''address'']
                                     [PString userAddress])) (\<lambda>calldata.
                          io_bind (makeEthCall h (cred_rpcEndpoint cred) (Some pool) calldata) (\<lambda>result.
                          io_lift (on_string result (\<lambda>s. decodeUint256 s None)))))
                         (\<lambda>error. io_return 0)) (\<lambda>pending.
                    io_bind (io_lift (weiToEther (PBigInt pending))) (\<lambda>pendingText.
                    io_return \<lparr>rw_address = userAddress, rw_pendingRewards = pendingText,
                               rw_estimatedApr = ''0%''\<rparr>)))))"

text \<open>
  \<^verbatim>\<open>getAPROperation\<close> computes its three figures in floating point from the decoded APR,
  or from 0 when the read fails.
\<close>

definition getAPROperation :: "host \<Rightarrow> credentials \<Rightarrow> AprInfo io" where
  "getAPROperation h cred =
     (if \<not> supportsStaking (cred_network cred) then io_throw (staking_unsupported (cred_network cred))
      else
        (case map_of NETWORK_CONFIGS ''ethereum'' of
           None \<Rightarrow> io_throw TypeError
         | Some config \<Rightarrow>
             (case stakingPoolAddress config of
                None \<Rightarrow> io_throw pool_not_configured
              | Some pool \<Rightarrow>
                  if pool = [] then io_throw pool_not_configured
                  else
                    io_bind
                      (io_try
                         (io_bind (io_lift (encodeFunctionCall ''apr'' [] [])) (\<lambda>calldata.
                          io_bind (makeEthCall h (cred_rpcEndpoint cred) (Some pool) calldata) (\<lambda>result.
                          io_lift (on_string result (\<lambda>s. decodeUint256 s None)))))
                         (\<lambda>error. io_return 0)) (\<lambda>aprValue.
                    io_return \<lparr>ai_apr = apr_toFixed2 h aprValue @ ''%'',
                               ai_apy = apy_toFixed2 h aprValue @ ''%'',
                               ai_rewardRate = rate_toFixed6 h aprValue @ ''%''\<rparr>))))"

subsection \<open>Governance\<close>

record Proposal =
  pr_proposalId :: string
  pr_title :: string
  pr_description :: string
  pr_proposer :: string
  pr_startTime :: int
  pr_endTime :: int
  pr_forVotes :: string
  pr_againstVotes :: string
  pr_abstainVotes :: string
  pr_status :: string

record VoteRecords =
  vrs_userAddress :: string
  vrs_totalVotes :: nat
  vrs_votes :: "VoteRecord list"
  vrs_network :: string

record Treasury =
  trs_balance :: string
  trs_api3Balance :: string
  trs_ethBalance :: string
  trs_totalAllocated :: string
  trs_totalSpent :: string
  trs_recentTransactions :: "string list"

definition governance_unsupported :: js_error where
  "governance_unsupported =
     NodeOperationError ''Governance operations are only available on Ethereum mainnet''"

definition mapProposalStatus :: "string \<Rightarrow> string" where
  "mapProposalStatus st =
     (let normalized = toLowerCase st in
      if normalized = ''pending'' then ''pending''
      else if normalized = ''active'' then ''active''
      else if normalized = ''succeeded'' then ''succeeded''
      else if normalized = ''defeated'' then ''defeated''
      else if normalized = ''executed'' then ''executed''
      else if normalized = ''cancelled'' \<or> normalized = ''canceled'' then ''cancelled''
      else ''pending'')"

definition proposal_of_api :: "api_proposal \<Rightarrow> Proposal" where
  "proposal_of_api p =
     \<lparr>pr_proposalId = ap_id p, pr_title = ap_title p, pr_description = ap_description p,
      pr_proposer = ap_proposer p, pr_startTime = ap_startTime p, pr_endTime = ap_endTime p,
      pr_forVotes = ap_forVotes p, pr_againstVotes = ap_againstVotes p,
      pr_abstainVotes = js_or (ap_abstainVotes p) ''0'',
      pr_status = mapProposalStatus (ap_status p)\<rparr>"

definition zero_address :: string where
  "zero_address = ''0x0000000000000000000000000000000000000000''"

definition generateSampleProposals :: "host \<Rightarrow> int \<Rightarrow> Proposal list" where
  "generateSampleProposals h count =
     map (\<lambda>i.
        \<lparr>pr_proposalId = bigint_toString 10 i,
         pr_title = ''Sample Proposal #'' @ bigint_toString 10 i,
         pr_description = ''This is a sample proposal. Real data requires API3 DAO API access.'',
         pr_proposer = zero_address,
         pr_startTime = host_now h - 86400 * i, pr_endTime = host_now h + 86400 * (7 - i),
         pr_forVotes = ''0'', pr_againstVotes = ''0'', pr_abstainVotes = ''0'',
         pr_status = (if i mod 2 = 0 then ''active'' else ''pending'')\<rparr>) [1..count]"

definition getProposalsOperation ::
  "host \<Rightarrow> credentials \<Rightarrow> string \<Rightarrow> int \<Rightarrow> Proposal list io" where
  "getProposalsOperation h cred st limit =
     (if \<not> supportsDAO (cred_network cred) then io_throw governance_unsupported
      else
        io_try
          (io_bind
             (io_try
                (io_bind (makeApiRequest h ''GET'' (API3_MARKET @ ''/governance/proposals''))
                   (\<lambda>response.
                 io_return (case response of
                              ProposalsJson (Some ps) \<Rightarrow> map proposal_of_api ps
                            | _ \<Rightarrow> [])))
                (\<lambda>error. io_return (generateSampleProposals h limit))) (\<lambda>proposals.
           io_return
             (js_slice (if st \<noteq> ''all'' then filter (\<lambda>p. pr_status p = st) proposals
                        else proposals) 0 limit)))
          (\<lambda>error.
           io_throw (NodeOperationError (''Failed to get proposals: '' @ error_message h error))))"

text \<open>
  \<^verbatim>\<open>getProposalOperation\<close>: the REST service first; when that fails, the governance contract
  (the \<^verbatim>\<open>catch\<close> block, whose own failures reach the outer \<^verbatim>\<open>catch\<close>), and a placeholder
  when the contract call or its decoding fails.
\<close>

definition getProposalOperation :: "host \<Rightarrow> credentials \<Rightarrow> string \<Rightarrow> Proposal io" where
  "getProposalOperation h cred pid =
     (if \<not> supportsDAO (cred_network cred) then io_throw governance_unsupported
      else
        io_try
          (io_bind (io_lift (getNetworkConfig (cred_network cred))) (\<lambda>config.
           io_try
             (io_bind (makeApiRequest h ''GET'' (API3_MARKET @ ''/governance/proposals/'' @ pid))
                (\<lambda>response.
              case response of
                ProposalJson p \<Rightarrow> io_return (proposal_of_api p)
              | _ \<Rightarrow> io_throw TypeError))
             (\<lambda>error.
              io_bind
                (if falsy (get_governanceAddress config) then io_return None
                 else
                   (case get_governanceAddress config of
                      None \<Rightarrow> io_return None
                    | Some gov \<Rightarrow>
                        io_bind (io_lift (encodeFunctionCall ''proposal'' [''uint256'']
                                   [PString pid])) (\<lambda>calldata.
                        io_try
                          (io_bind (makeEthCall h (cred_rpcEndpoint cred) (Some gov) calldata) (\<lambda>result.
                           io_bind (io_lift (on_string result (\<lambda>s. decodeUint256 s (Some 0))))
                             (\<lambda>for.
                           io_bind (io_lift (on_string result (\<lambda>s. decodeUint256 s (Some 64))))
                             (\<lambda>against.
                           io_bind (io_lift (formatWithDecimals (PBigInt for) 18)) (\<lambda>forText.
                           io_bind (io_lift (formatWithDecimals (PBigInt against) 18))
                             (\<lambda>againstText.
                           io_return
                             (Some \<lparr>pr_proposalId = pid, pr_title = ''Proposal #'' @ pid,
                                    pr_description = ''On-chain proposal data'',
                                    pr_proposer = zero_address, pr_startTime = 0, pr_endTime = 0,
                                    pr_forVotes = forText, pr_againstVotes = againstText,
                                    pr_abstainVotes = ''0'', pr_status = ''active''\<rparr>)))))))
                          (\<lambda>error. io_return None))))
                (\<lambda>onchain.
                 case onchain of
                   Some proposal \<Rightarrow> io_return proposal
                 | None \<Rightarrow>
                     io_return
                       \<lparr>pr_proposalId = pid, pr_title = ''Proposal #'' @ pid,
                        pr_description = ''Unable to fetch proposal details'',
                        pr_proposer = zero_address, pr_startTime = 0, pr_endTime = 0,
                        pr_forVotes = ''0'', pr_againstVotes = ''0'', pr_abstainVotes = ''0'',
                        pr_status = ''pending''\<rparr>))))
          (\<lambda>error.
           io_throw (NodeOperationError (''Failed to get proposal: '' @ error_message h error))))"

definition getVoteRecordOperation :: "host \<Rightarrow> credentials \<Rightarrow> string \<Rightarrow> VoteRecords io" where
  "getVoteRecordOperation h cred userAddress =
     (if \<not> supportsDAO (cred_network cred) then io_throw governance_unsupported
      else
        io_try
          (io_bind
             (io_try
                (io_bind (makeApiRequest h ''GET'' (API3_MARKET @ ''/governance/votes/'' @ userAddress))
                   (\<lambda>response.
                 io_return (case response of VotesJson (Some vs) \<Rightarrow> vs | _ \<Rightarrow> [])))
                (\<lambda>error. io_return [])) (\<lambda>vs.
           io_return \<lparr>vrs_userAddress = userAddress, vrs_totalVotes = length vs, vrs_votes = vs,
                      vrs_network = cred_network cred\<rparr>))
          (\<lambda>error.
           io_throw (NodeOperationError (''Failed to get vote record: '' @ error_message h error))))"

definition getTreasuryOperation :: "host \<Rightarrow> credentials \<Rightarrow> Treasury io" where
  "getTreasuryOperation h cred =
     (if \<not> supportsDAO (cred_network cred) then io_throw governance_unsupported
      else
        io_try
          (io_bind (io_lift (getNetworkConfig (cred_network cred))) (\<lambda>config.
           io_bind
             (if falsy (get_governanceAddress config) \<or> falsy (get_api3TokenAddress config)
              then io_return ''0''
              else
                (case (get_governanceAddress config, get_api3TokenAddress config) of
                   (Some gov, Some token) \<Rightarrow>
                     io_try
                       (io_bind (io_lift (encodeFunctionCall ''balanceOf'' [''address'']
                                   [PString gov])) (\<lambda>balanceData.
                        io_bind (makeEthCall h (cred_rpcEndpoint cred) (Some token) balanceData)
                          (\<lambda>balanceResult.
                        io_bind (io_lift (on_string balanceResult (\<lambda>s. decodeUint256 s None)))
                          (\<lambda>raw.
                        io_lift (formatWithDecimals (PBigInt raw) 18)))))
                       (\<lambda>error. io_return ''0'')
                 | _ \<Rightarrow> io_return ''0'')) (\<lambda>api3.
           io_return \<lparr>trs_balance = api3, trs_api3Balance = api3, trs_ethBalance = ''0'',
                      trs_totalAllocated = ''0'', trs_totalSpent = ''0'', trs_recentTransactions = []\<rparr>)))
          (\<lambda>error.
           io_throw (NodeOperationError (''Failed to get treasury info: '' @ error_message h error))))"


section \<open>Auxiliary definitions for the statements\<close>

text \<open>
  A value fits one call-data word of its type tag: a \<^verbatim>\<open>bytes32\<close> of at most 64 hex characters
  after \<^verbatim>\<open>0x\<close>, or a plain string of at most 32 bytes; an \<^verbatim>\<open>address\<close> of at most 64 characters
  after the optional \<^verbatim>\<open>0x\<close>; a \<^verbatim>\<open>uint256\<close> that \<^verbatim>\<open>BigInt\<close> converts to a value in
  \<open>[0, 2^256)\<close>. No other tag fits.
\<close>

definition fits_word :: "string \<Rightarrow> js_prim \<Rightarrow> bool" where
  "fits_word ty v =
     (if ty = ''bytes32'' then
        (case v of
           PString s \<Rightarrow> (if startsWith s ''0x'' then length s \<le> 66 else length s \<le> 32)
         | _ \<Rightarrow> False)
      else if ty = ''address'' then
        (case v of PString s \<Rightarrow> length (strip0x s) \<le> 64 | _ \<Rightarrow> False)
      else if ty = ''uint256'' then
        (case BigInt v of Inl e \<Rightarrow> False | Inr n \<Rightarrow> 0 \<le> n \<and> n < 2 ^ 256)
      else False)"


text \<open>The \<^verbatim>\<open>eth_call\<close> request that \<^verbatim>\<open>makeEthCall\<close> issues.\<close>

definition eth_call_request :: "string \<Rightarrow> string \<Rightarrow> string \<Rightarrow> request" where
  "eth_call_request endpoint to calldata =
     RpcRequest endpoint ''eth_call'' [CallObject (Some to) calldata, BlockTag ''latest'']"

text \<open>
  A core failure of a read: the reply to the request is an RPC failure, which
  \<^verbatim>\<open>makeRpcCall\<close> throws as the error \<open>e\<close>, or it is a result whose decoding throws \<open>e\<close>.
\<close>

definition core_failure :: "rpc_reply \<Rightarrow> (string \<Rightarrow> js_error + 'a) \<Rightarrow> js_error \<Rightarrow> bool" where
  "core_failure reply decode e =
     (case reply of
        RpcThrows msg \<Rightarrow> e = NodeApiError msg ''Failed to make RPC call''
      | RpcErrorReply code msg \<Rightarrow>
          e = NodeApiError msg (''RPC Error Code: '' @ bigint_toString 10 code)
      | RpcResultReply r \<Rightarrow> on_string r decode = Inl e)"

text \<open>The two decodings of a feed read: the value, then the timestamp.\<close>

definition decode_feed :: "string \<Rightarrow> js_error + int \<times> int" where
  "decode_feed s =
     (case decodeInt224 s of
        Inl e \<Rightarrow> Inl e
      | Inr v \<Rightarrow> (case decodeUint32 s (Some 64) of Inl e \<Rightarrow> Inl e | Inr ts \<Rightarrow> Inr (v, ts)))"

text \<open>A host whose node and REST service cannot be reached, and two sets of credentials.\<close>

definition unreachable_host :: host where
  "unreachable_host =
     \<lparr>host_rpc = (\<lambda>tr req. RpcThrows ''connect ECONNREFUSED''),
      host_api = (\<lambda>tr req. ApiThrows ''connect ECONNREFUSED''),
      host_now = 0,
      apr_toFixed2 = (\<lambda>v. ''0.00''), apy_toFixed2 = (\<lambda>v. ''0.00''),
      rate_toFixed6 = (\<lambda>v. ''0.000000''),
      engine_message = (\<lambda>e. [])\<rparr>"

definition polygon_credentials :: credentials where
  "polygon_credentials =
     \<lparr>cred_network = ''polygon'', cred_rpcEndpoint = ''https://polygon-rpc.com'',
      cred_privateKey = None, cred_api3MarketApiKey = None, cred_oevApiKey = None\<rparr>"

definition ethereum_credentials :: credentials where
  "ethereum_credentials =
     \<lparr>cred_network = ''ethereum'', cred_rpcEndpoint = ''https://eth.llamarpc.com'',
      cred_privateKey = None, cred_api3MarketApiKey = None, cred_oevApiKey = None\<rparr>"

definition sample_feed_id :: string where
  "sample_feed_id = ''0x4385954e058fbe6b6a744f32a4f89d67aad099f8fb8b23e7ea8dd366ae88151d''"

definition sample_address :: string where
  "sample_address = ''0x742d35Cc6634C0532925a3b844Bc9e7595f1dE00''"

text \<open>What \<^verbatim>\<open>makeRpcCall\<close> throws on that host.\<close>

definition refused :: js_error where
  "refused = NodeApiError ''connect ECONNREFUSED'' ''Failed to make RPC call''"

section \<open>Facts about the built-ins\<close>

subsection \<open>Printing and reading digits\<close>

lemma digit_val_digit_char: "d < 16 \<Longrightarrow> digit_val (digit_char d) = Some d"
proof -
  assume "d < 16"
  then have "d = 0 \<or> d = 1 \<or> d = 2 \<or> d = 3 \<or> d = 4 \<or> d = 5 \<or> d = 6 \<or> d = 7 \<or>
             d = 8 \<or> d = 9 \<or> d = 10 \<or> d = 11 \<or> d = 12 \<or> d = 13 \<or> d = 14 \<or> d = 15"
    by arith
  then show ?thesis
    by (elim disjE) (simp_all add: digit_val_def digit_char_def)
qed

lemma digit_in_digit_char: "d < b \<Longrightarrow> b \<le> 16 \<Longrightarrow> digit_in b (digit_char d)"
  by (simp add: digit_in_def digit_val_digit_char)

lemma digit_num_digit_char: "d < 16 \<Longrightarrow> digit_num (digit_char d) = d"
  by (simp add: digit_num_def digit_val_digit_char)

lemma to_digits_nonempty: "to_digits b n \<noteq> []"
  by (subst to_digits.simps) simp

lemma to_digits_digit_in:
  "2 \<le> b \<Longrightarrow> b \<le> 16 \<Longrightarrow> list_all (digit_in b) (to_digits b n)"
proof (induction b n rule: to_digits.induct)
  case (1 b n)
  show ?case
  proof (cases "n < b")
    case True
    with 1(3) show ?thesis
      by (subst to_digits.simps) (simp add: digit_in_digit_char)
  next
    case False
    with 1 have "list_all (digit_in b) (to_digits b (n div b))" by simp
    moreover have "digit_in b (digit_char (n mod b))"
      using 1(2,3) by (simp add: digit_in_digit_char)
    ultimately show ?thesis
      using False 1(2) by (subst to_digits.simps) simp
  qed
qed

lemma digits_value_snoc:
  "digits_value b (ds @ [c]) = digits_value b ds * b + digit_num c"
  by (simp add: digits_value_def)

lemma digits_value_to_digits:
  "2 \<le> b \<Longrightarrow> b \<le> 16 \<Longrightarrow> digits_value b (to_digits b n) = n"
proof (induction b n rule: to_digits.induct)
  case (1 b n)
  show ?case
  proof (cases "n < b")
    case True
    with 1(3) show ?thesis
      by (subst to_digits.simps) (simp add: digits_value_def digit_num_digit_char)
  next
    case False
    with 1 have "digits_value b (to_digits b (n div b)) = n div b" by simp
    moreover have "n mod b < 16"
      using 1(2,3) by (meson less_le_trans mod_less_divisor zero_less_numeral less_le_trans [of 0 2 b])
    then have "digit_num (digit_char (n mod b)) = n mod b"
      by (simp add: digit_num_digit_char)
    ultimately show ?thesis
      using False 1(2) by (subst to_digits.simps) (simp add: digits_value_snoc)
  qed
qed

lemma length_to_digits:
  "2 \<le> b \<Longrightarrow> n < b ^ k \<Longrightarrow> 0 < k \<Longrightarrow> length (to_digits b n) \<le> k"
proof (induction b n arbitrary: k rule: to_digits.induct)
  case (1 b n)
  show ?case
  proof (cases "n < b")
    case True
    with 1(4) show ?thesis by (subst to_digits.simps) simp
  next
    case False
    obtain j where k: "k = Suc j" using 1(4) by (cases k) auto
    have "j \<noteq> 0" using False 1(3) k by (cases j) auto
    moreover have "n div b < b ^ j"
      using 1(3) k by (simp add: less_mult_imp_div_less mult.commute)
    ultimately have "length (to_digits b (n div b)) \<le> j"
      using 1(1)[of j] False 1(2) by simp
    then show ?thesis using False 1(2) k by (subst to_digits.simps) simp
  qed
qed

lemma digits_value_foldl:
  "foldl (\<lambda>acc c. acc * b + digit_num c) a ds =
     a * b ^ length ds + foldl (\<lambda>acc c. acc * b + digit_num c) 0 ds"
proof (induction ds arbitrary: a)
  case Nil
  show ?case by simp
next
  case (Cons x xs)
  define f where "f = (\<lambda>acc c. acc * b + digit_num c)"
  have fx: "f a x = a * b + digit_num x" "f 0 x = digit_num x"
    by (simp_all add: f_def)
  have 1: "foldl f (f a x) xs = f a x * b ^ length xs + foldl f 0 xs"
    unfolding f_def by (rule Cons.IH)
  have 2: "foldl f (f 0 x) xs = f 0 x * b ^ length xs + foldl f 0 xs"
    unfolding f_def by (rule Cons.IH)
  have "foldl f a (x # xs) = a * b ^ length (x # xs) + foldl f 0 (x # xs)"
    by (simp only: foldl_Cons 1 2) (simp add: fx algebra_simps)
  then show ?case by (simp only: f_def)
qed

lemma digits_value_append:
  "digits_value b (xs @ ys) = digits_value b xs * b ^ length ys + digits_value b ys"
  unfolding digits_value_def foldl_append
  by (rule digits_value_foldl)

lemma digit_num_zero: "digit_num CHR ''0'' = 0"
  by (simp add: digit_num_def digit_val_def)

lemma digits_value_zeros: "digits_value b (replicate k CHR ''0'') = 0"
  by (induction k) (simp_all add: digits_value_def digit_num_zero)

subsection \<open>BigInt literals, splitting and trimming\<close>

lemma digit_in_10_range:
  "digit_in 10 c \<longleftrightarrow> 48 \<le> (of_char c :: nat) \<and> (of_char c :: nat) \<le> 57"
  by (auto simp: digit_in_def digit_val_def Let_def)

lemma digit_in_mono: "digit_in b c \<Longrightarrow> b \<le> b' \<Longrightarrow> digit_in b' c"
  by (auto simp: digit_in_def split: option.splits)

lemma digit_in_16_not_space: "digit_in 16 c \<Longrightarrow> \<not> is_space c"
  by (auto simp: digit_in_def digit_val_def is_space_def Let_def split: if_splits)

lemma digit_in_10_not_dot: "digit_in 10 c \<Longrightarrow> c \<noteq> CHR ''.''"
  by (auto simp: digit_in_10_range)

lemma dropWhile_hd_self: "xs \<noteq> [] \<Longrightarrow> \<not> P (hd xs) \<Longrightarrow> dropWhile P xs = xs"
  by (cases xs) auto

lemma js_trim_self:
  assumes "s \<noteq> []" "\<not> is_space (hd s)" "\<not> is_space (last s)"
  shows "js_trim s = s"
proof -
  have "dropWhile is_space s = s"
    using assms(1,2) by (rule dropWhile_hd_self)
  moreover have "dropWhile is_space (rev s) = rev s"
    using assms(1,3) by (intro dropWhile_hd_self) (simp_all add: hd_rev)
  ultimately show ?thesis by (simp add: js_trim_def)
qed

lemma list_all_hd_last:
  "s \<noteq> [] \<Longrightarrow> list_all P s \<Longrightarrow> P (hd s) \<and> P (last s)"
  by (cases s) (auto simp: list_all_iff)

lemma StringToBigInt_decimal:
  assumes "s \<noteq> []" "list_all (digit_in 10) s"
  shows "StringToBigInt s = Inr (int (digits_value 10 s))"
proof -
  have hl: "digit_in 10 (hd s)" "digit_in 10 (last s)"
    using list_all_hd_last [OF assms] by simp_all
  then have "js_trim s = s"
    using assms(1) by (intro js_trim_self) (auto dest!: digit_in_mono [where b' = 16] digit_in_16_not_space)
  moreover have "\<not> startsWith s [c, c']" if "\<not> digit_in 10 c'" for c c'
    using assms(2) that by (cases s; cases "tl s") (auto simp: startsWith_def)
  moreover have "\<not> startsWith s [c]" if "\<not> digit_in 10 c" for c
    using assms that by (cases s) (auto simp: startsWith_def)
  moreover have "\<not> digit_in 10 c"
    if "c \<in> {CHR ''x'', CHR ''X'', CHR ''o'', CHR ''O'', CHR ''b'', CHR ''B'', CHR ''+'', CHR ''-''}" for c
    using that by (auto simp: digit_in_10_range)
  ultimately show ?thesis
    using assms by (simp add: StringToBigInt_def parse_digits_def)
qed

lemma StringToBigInt_hex:
  assumes "h \<noteq> []" "list_all (digit_in 16) h"
  shows "StringToBigInt (''0x'' @ h) = Inr (int (digits_value 16 h))"
proof -
  have "digit_in 16 (last h)"
    using list_all_hd_last [OF assms] by simp
  then have "\<not> is_space (last (''0x'' @ h))"
    using assms(1) by (simp add: digit_in_16_not_space)
  moreover have "\<not> is_space (hd (''0x'' @ h))"
    by (simp add: is_space_def)
  ultimately have "js_trim (''0x'' @ h) = ''0x'' @ h"
    by (intro js_trim_self) simp_all
  then show ?thesis
    using assms by (simp add: StringToBigInt_def parse_digits_def startsWith_def)
qed

lemma StringToBigInt_0x: "StringToBigInt ''0x'' = Inl SyntaxError"
  by (simp add: StringToBigInt_def js_trim_def is_space_def startsWith_def parse_digits_def)

lemma js_split_no_sep: "sep \<notin> set s \<Longrightarrow> js_split sep s = [s]"
  by (induction s) auto

lemma js_split_append:
  "sep \<notin> set a \<Longrightarrow> js_split sep (a @ sep # b) = a # js_split sep b"
  by (induction a) auto

lemma replicate_of_same: "\<forall>x \<in> set xs. x = c \<Longrightarrow> xs = replicate (length xs) c"
  by (induction xs) auto

lemma strip_trailing_zeros_decomp:
  "\<exists>k. s = strip_trailing_zeros s @ replicate k CHR ''0''"
proof -
  let ?P = "\<lambda>c. c = CHR ''0''"
  have "rev s = takeWhile ?P (rev s) @ dropWhile ?P (rev s)" by simp
  then have "s = rev (dropWhile ?P (rev s)) @ rev (takeWhile ?P (rev s))"
    by (metis rev_append rev_rev_ident)
  moreover have "takeWhile ?P (rev s) = replicate (length (takeWhile ?P (rev s))) CHR ''0''"
    by (rule replicate_of_same) (auto dest: set_takeWhileD)
  ultimately have "s = strip_trailing_zeros s @ replicate (length (takeWhile ?P (rev s))) CHR ''0''"
    by (metis rev_replicate strip_trailing_zeros_def)
  then show ?thesis ..
qed

lemma padEnd_strip_trailing_zeros:
  "padEnd (length s) CHR ''0'' (strip_trailing_zeros s) = s"
proof -
  obtain k where k: "s = strip_trailing_zeros s @ replicate k CHR ''0''"
    using strip_trailing_zeros_decomp by blast
  then have "length s = length (strip_trailing_zeros s) + k"
    by (metis length_append length_replicate)
  then show ?thesis using k by (simp add: padEnd_def)
qed

lemma strip_trailing_zeros_nonempty:
  "\<exists>c \<in> set s. c \<noteq> CHR ''0'' \<Longrightarrow> strip_trailing_zeros s \<noteq> []"
  by (auto simp: strip_trailing_zeros_def dropWhile_eq_Nil_conv)

lemma set_strip_trailing_zeros: "set (strip_trailing_zeros s) \<subseteq> set s"
  by (auto simp: strip_trailing_zeros_def dest: set_dropWhileD)

lemma digits_value_all_zero:
  "\<forall>c \<in> set s. c = CHR ''0'' \<Longrightarrow> digits_value b s = 0"
  using replicate_of_same [of s "CHR ''0''"] digits_value_zeros [of b "length s"] by simp

lemma js_slice_take: "js_slice s 0 (int d) = take d s"
  by (simp add: js_slice_def Let_def min_def)

lemma bigint_div_nonneg: "0 \<le> a \<Longrightarrow> 0 < b \<Longrightarrow> bigint_div a b = a div b"
  by (cases "a = 0") (simp_all add: bigint_div_def)

lemma bigint_rem_nonneg: "0 \<le> a \<Longrightarrow> 0 < b \<Longrightarrow> bigint_rem a b = a mod b"
  by (cases "a = 0") (simp_all add: bigint_rem_def)

lemma bigint_toString_nonneg: "0 \<le> n \<Longrightarrow> bigint_toString r n = to_digits r (nat n)"
  by (simp add: bigint_toString_def)

subsection \<open>Decimal strings\<close>

lemma decimal_print_facts:
  "to_digits 10 n \<noteq> []"
  "list_all (digit_in 10) (to_digits 10 n)"
  "CHR ''.'' \<notin> set (to_digits 10 n)"
  "digits_value 10 (to_digits 10 n) = n"
proof -
  show "to_digits 10 n \<noteq> []" by (rule to_digits_nonempty)
  show d: "list_all (digit_in 10) (to_digits 10 n)" by (rule to_digits_digit_in) simp_all
  show "CHR ''.'' \<notin> set (to_digits 10 n)"
    using d digit_in_10_not_dot by (auto simp: list_all_iff)
  show "digits_value 10 (to_digits 10 n) = n" by (rule digits_value_to_digits) simp_all
qed

lemma parse_integer_only:
  assumes "I \<noteq> []" "list_all (digit_in 10) I"
  shows "parseWithDecimals I d = Inr (int (digits_value 10 I * 10 ^ d))"
proof -
  have nodot: "CHR ''.'' \<notin> set I"
    using assms(2) digit_in_10_not_dot by (auto simp: list_all_iff)
  have sl: "js_slice (padEnd d CHR ''0'' ''0'') 0 (int d) = replicate d CHR ''0''"
    unfolding js_slice_take by (cases d) (simp_all add: padEnd_def)
  have z: "list_all (digit_in 10) (replicate d CHR ''0'')"
    by (simp add: list_all_iff digit_in_10_range)
  have "parseWithDecimals I d = StringToBigInt (I @ replicate d CHR ''0'')"
    using assms(1) by (simp add: parseWithDecimals_def js_split_no_sep [OF nodot] js_index_def js_or_def sl)
  also have "\<dots> = Inr (int (digits_value 10 (I @ replicate d CHR ''0'')))"
    using assms z by (intro StringToBigInt_decimal) simp_all
  finally show ?thesis
    by (simp add: digits_value_append digits_value_zeros)
qed

lemma parse_with_fraction:
  assumes "I \<noteq> []" "list_all (digit_in 10) I"
    and "list_all (digit_in 10) F" "length F = d" "\<exists>c \<in> set F. c \<noteq> CHR ''0''"
  shows "parseWithDecimals (I @ ''.'' @ strip_trailing_zeros F) d =
           Inr (int (digits_value 10 I * 10 ^ d + digits_value 10 F))"
proof -
  let ?T = "strip_trailing_zeros F"
  have nodotI: "CHR ''.'' \<notin> set I"
    using assms(2) digit_in_10_not_dot by (auto simp: list_all_iff)
  have "CHR ''.'' \<notin> set F"
    using assms(3) digit_in_10_not_dot by (auto simp: list_all_iff)
  then have nodotT: "CHR ''.'' \<notin> set ?T"
    using set_strip_trailing_zeros by blast
  have T: "?T \<noteq> []" using assms(5) by (rule strip_trailing_zeros_nonempty)
  have parts: "js_split CHR ''.'' (I @ ''.'' @ ?T) = [I, ?T]"
    using js_split_append [OF nodotI, of ?T] js_split_no_sep [OF nodotT] by simp
  have pad: "padEnd d CHR ''0'' ?T = F"
    using padEnd_strip_trailing_zeros [of F] assms(4) by simp
  have "parseWithDecimals (I @ ''.'' @ ?T) d = StringToBigInt (I @ F)"
    unfolding parseWithDecimals_def parts
    using assms(1,4) T by (simp add: js_index_def js_or_def pad js_slice_take)
  also have "\<dots> = Inr (int (digits_value 10 (I @ F)))"
    using assms(1,2,3) by (intro StringToBigInt_decimal) simp_all
  finally show ?thesis
    using assms(4) by (simp add: digits_value_append)
qed

lemma padStart_digits:
  assumes "n < 10 ^ d" "0 < d"
  shows "length (padStart d CHR ''0'' (to_digits 10 n)) = d"
    and "list_all (digit_in 10) (padStart d CHR ''0'' (to_digits 10 n))"
    and "digits_value 10 (padStart d CHR ''0'' (to_digits 10 n)) = n"
proof -
  have "length (to_digits 10 n) \<le> d"
    using assms by (intro length_to_digits) simp_all
  then show "length (padStart d CHR ''0'' (to_digits 10 n)) = d"
    by (simp add: padStart_def)
  show "list_all (digit_in 10) (padStart d CHR ''0'' (to_digits 10 n))"
    using decimal_print_facts(2) [of n]
    by (auto simp: padStart_def list_all_iff digit_in_10_range)
  show "digits_value 10 (padStart d CHR ''0'' (to_digits 10 n)) = n"
    by (simp add: padStart_def digits_value_append digits_value_zeros decimal_print_facts)
qed

text \<open>Rules that evaluate the built-ins on literals.\<close>

lemma to_digits_small: "n < b \<Longrightarrow> to_digits b n = [digit_char n]"
  by (subst to_digits.simps) simp

lemma to_digits_big:
  "\<not> n < b \<Longrightarrow> 2 \<le> b \<Longrightarrow> to_digits b n = to_digits b (n div b) @ [digit_char (n mod b)]"
  by (subst to_digits.simps) simp

lemma replicate_numeral: "replicate (numeral k) x = x # replicate (pred_numeral k) x"
  by (simp add: numeral_eq_Suc)

lemmas js_eval =
  to_digits_small to_digits_big replicate_numeral digit_char_def bigint_toString_def
  bigint_div_def bigint_rem_def padStart_def padEnd_def strip_trailing_zeros_def
  js_slice_def js_index_def js_or_def startsWith_def js_trim_def is_space_def
  StringToBigInt_def parse_digits_def digits_value_def digit_in_def digit_num_def
  digit_val_def Let_def

subsection \<open>Selectors, the registry and sizes of words\<close>

lemma unknown_signature_selector:
  assumes "map_of precomputed (functionName @ ''('' @ js_join '','' types @ '')'') = None"
  shows "getFunctionSelector functionName types = ''0x00000000''"
  using assms by (simp add: getFunctionSelector_def simpleKeccak256_def js_or_def js_slice_def)

lemma selector_known: "getFunctionSelector ''transfer'' [''address'', ''uint256''] = ''0xa9059cbb''"
  by (simp add: getFunctionSelector_def simpleKeccak256_def precomputed_def js_or_def js_slice_def)

lemma signature_not_inherited:
  "functionName @ ''('' @ js_join '','' types @ '')'' \<notin> set Object_prototype_names"
proof -
  have "last (functionName @ ''('' @ js_join '','' types @ '')'') = CHR '')''"
    by simp
  moreover have "\<forall>n \<in> set Object_prototype_names. last n \<noteq> CHR '')''"
    by (simp add: Object_prototype_names_def)
  ultimately show ?thesis by metis
qed

lemma distinct_network_keys: "distinct (map fst NETWORK_CONFIGS)"
  by (simp add: NETWORK_CONFIGS_def)

lemma length_to_digits_lower:
  "2 \<le> b \<Longrightarrow> b ^ k \<le> n \<Longrightarrow> k < length (to_digits b n)"
proof (induction b n arbitrary: k rule: to_digits.induct)
  case (1 b n)
  show ?case
  proof (cases k)
    case 0
    then show ?thesis using to_digits_nonempty [of b n] by simp
  next
    case (Suc j)
    then have bj: "b * b ^ j \<le> n" using 1(3) by simp
    have "b \<le> b * b ^ j" using 1(2) by simp
    then have nb: "\<not> (n < b \<or> b < 2)" using bj 1(2) by linarith
    have "b ^ j \<le> n div b"
      using bj 1(2) by (metis div_le_mono nonzero_mult_div_cancel_left not_numeral_le_zero)
    then have "j < length (to_digits b (n div b))"
      using 1(1) [OF nb 1(2)] by simp
    then show ?thesis
      using nb Suc by (subst to_digits.simps) simp
  qed
qed

lemma digit_in_minus: "\<not> digit_in 16 CHR ''-''"
  by (simp add: digit_in_def digit_val_def)

lemma encodeUint256_fits:
  assumes "BigInt p = Inr v" "0 \<le> v" "v < 2 ^ 256"
  shows "\<exists>w. encodeUint256 p = Inr w \<and> length w = 64 \<and> list_all (digit_in 16) w \<and>
              int (digits_value 16 w) = v \<and>
              w = replicate (64 - length (to_digits 16 (nat v))) CHR ''0'' @ to_digits 16 (nat v)"
proof -
  let ?h = "to_digits 16 (nat v)"
  let ?w = "padStart 64 CHR ''0'' ?h"
  have "nat v < 2 ^ 256" using assms(2,3) by (simp add: nat_less_iff)
  then have "nat v < 16 ^ 64" by simp
  then have len: "length ?h \<le> 64" by (intro length_to_digits) simp_all
  have h: "list_all (digit_in 16) ?h" by (rule to_digits_digit_in) simp_all
  have "encodeUint256 p = Inr ?w"
    using assms by (simp add: encodeUint256_def bigint_toString_nonneg)
  moreover have "length ?w = 64" using len by (simp add: padStart_def)
  moreover have "list_all (digit_in 16) ?w"
    using h by (auto simp: padStart_def list_all_iff digit_in_def digit_val_def)
  moreover have "int (digits_value 16 ?w) = v"
    using assms(2) by (simp add: padStart_def digits_value_append digits_value_zeros digits_value_to_digits)
  moreover have "?w = replicate (64 - length ?h) CHR ''0'' @ ?h"
    by (simp add: padStart_def)
  ultimately show ?thesis by blast
qed

subsection \<open>Decoding and encoding words\<close>

lemma js_slice_word:
  "js_slice s (int k) (int k + 64) = take 64 (drop k s)"
  by (auto simp: js_slice_def Let_def min_def)

lemma list_all_take_drop: "list_all P s \<Longrightarrow> list_all P (take n (drop k s))"
  by (auto simp: list_all_iff dest: in_set_takeD in_set_dropD)

lemma is_hex_char_eq: "is_hex_char = digit_in 16"
  by (simp add: fun_eq_iff is_hex_char_def)





lemma length_selector: "length (getFunctionSelector functionName types) = 10"
proof -
  have "\<forall>(k, h) \<in> set precomputed. length h = 10"
    by (simp add: precomputed_def)
  then have "length (simpleKeccak256 s) = 10" for s
    by (auto simp: simpleKeccak256_def js_or_def split: option.splits dest!: map_of_SomeD)
  then show ?thesis
    by (simp add: getFunctionSelector_def js_slice_def Let_def)
qed

lemma length_buffer_hex: "length (buffer_hex s) = 2 * length s"
  by (induction s) (simp_all add: buffer_hex_def byte_hex_def Let_def)

lemma encodeParameter_word:
  assumes "fits_word ty v"
  shows "\<exists>w. encodeParameter ty v = Inr w \<and> length w = 64"
proof -
  consider (b) "ty = ''bytes32''" | (a) "ty = ''address''" | (u) "ty = ''uint256''"
    using assms by (auto simp: fits_word_def split: if_splits)
  then show ?thesis
  proof cases
    case b
    then obtain s where s: "v = PString s"
      and l: "if startsWith s ''0x'' then length s \<le> 66 else length s \<le> 32"
      using assms by (auto simp: fits_word_def split: js_prim.splits)
    have "length (encodeBytes32 s) = 64"
      using l by (auto simp: encodeBytes32_def padEnd_def length_buffer_hex split: if_splits)
    then show ?thesis using b s by (simp add: encodeParameter_def)
  next
    case a
    then obtain s where s: "v = PString s" and l: "length (strip0x s) \<le> 64"
      using assms by (auto simp: fits_word_def split: js_prim.splits)
    have "length (encodeAddress s) = 64"
      using l by (auto simp: encodeAddress_def strip0x_def padStart_def toLowerCase_def Let_def)
    then show ?thesis using a s by (simp add: encodeParameter_def)
  next
    case u
    then obtain n where n: "BigInt v = Inr n" "0 \<le> n" "n < 2 ^ 256"
      using assms by (auto simp: fits_word_def split: sum.splits)
    from encodeUint256_fits [OF n] obtain w
      where "encodeUint256 v = Inr w" "length w = 64" by blast
    then show ?thesis using u by (simp add: encodeParameter_def)
  qed
qed

lemma length_concat_words:
  "list_all (\<lambda>w. length w = n) ws \<Longrightarrow> length (concat ws) = n * length ws"
  by (induction ws) simp_all

lemma encodeParameters_loop_words:
  assumes "list_all2 fits_word tys vs"
  shows "\<exists>ws. list_all2 (\<lambda>(ty, v) w. encodeParameter ty v = Inr w \<and> length w = 64) (zip tys vs) ws \<and>
              list_all (\<lambda>w. length w = 64) ws \<and>
              encodeParameters_loop tys vs acc = Inr (acc @ concat ws)"
  using assms
proof (induction tys vs arbitrary: acc rule: list_all2_induct)
  case Nil
  show ?case by simp
next
  case (Cons ty tys v vs)
  obtain w where w: "encodeParameter ty v = Inr w" "length w = 64"
    using encodeParameter_word [OF Cons.hyps(1)] by blast
  obtain ws where ws:
    "list_all2 (\<lambda>(ty, v) w. encodeParameter ty v = Inr w \<and> length w = 64) (zip tys vs) ws"
    "encodeParameters_loop tys vs (acc @ w) = Inr ((acc @ w) @ concat ws)"
    "list_all (\<lambda>w. length w = 64) ws"
    using Cons.IH [of "acc @ w"] by blast
  have "list_all2 (\<lambda>(ty, v) w. encodeParameter ty v = Inr w \<and> length w = 64)
          (zip (ty # tys) (v # vs)) (w # ws)"
    using w ws(1) by simp
  moreover have "encodeParameters_loop (ty # tys) (v # vs) acc = Inr (acc @ concat (w # ws))"
    using w(1) ws(2) by simp
  moreover have "list_all (\<lambda>w. length w = 64) (w # ws)"
    using w(2) ws(3) by simp
  ultimately show ?case by blast
qed


subsection \<open>The registry lookup\<close>

text \<open>
  For a key of the registry the explorer helpers return the explorer URL of its entry followed
  by \<^verbatim>\<open>/tx/\<close> and the hash, or by \<^verbatim>\<open>/address/\<close> and the address; for a name that is neither a key
  nor a member of \<^verbatim>\<open>Object.prototype\<close> they return the empty string and \<^verbatim>\<open>getNetworkConfig\<close>
  throws.
\<close>

lemma registry_lookup_own_key:
  assumes "(network, config) \<in> set NETWORK_CONFIGS"
  shows "registry_lookup network = Some (OwnEntry config)"
proof -
  have "map_of NETWORK_CONFIGS network = Some config"
    using distinct_network_keys assms by (rule map_of_is_SomeI)
  then show ?thesis by (simp add: registry_lookup_def)
qed

lemma registry_lookup_unknown:
  assumes "network \<notin> fst ` set NETWORK_CONFIGS" "network \<notin> set Object_prototype_names"
  shows "registry_lookup network = None"
proof -
  have "map_of NETWORK_CONFIGS network = None"
    using assms(1) by (simp add: map_of_eq_None_iff)
  then show ?thesis
    using assms(2) by (simp add: registry_lookup_def)
qed

lemma explorer_url_own_key:
  assumes "(network, config) \<in> set NETWORK_CONFIGS"
  shows "getExplorerTxUrl network txHash = explorerUrl config @ ''/tx/'' @ txHash"
    and "getExplorerAddressUrl network address = explorerUrl config @ ''/address/'' @ address"
    and "getNetworkConfig network = Inr (OwnEntry config)"
  using registry_lookup_own_key [OF assms]
  by (simp_all add: getExplorerTxUrl_def getExplorerAddressUrl_def getNetworkConfig_def
      template_text_def)

lemma explorer_url_unknown:
  assumes "network \<notin> fst ` set NETWORK_CONFIGS" "network \<notin> set Object_prototype_names"
  shows "getExplorerTxUrl network txHash = []"
    and "getExplorerAddressUrl network address = []"
    and "getNetworkConfig network = Inl (Error (''Unsupported network: '' @ network))"
  using registry_lookup_unknown [OF assms]
  by (simp_all add: getExplorerTxUrl_def getExplorerAddressUrl_def getNetworkConfig_def)

section \<open>Facts about the calls and the handlers\<close>

lemmas io_defs = io_return_def io_throw_def io_lift_def io_bind_def io_try_def

lemma encodeFunctionCall_nullary:
  "encodeFunctionCall f [] [] = Inr (getFunctionSelector f [])"
  by (simp add: encodeFunctionCall_def encodeParameters_def)

lemma encodeFunctionCall_address:
  "encodeFunctionCall f [''address''] [PString a] =
     Inr (getFunctionSelector f [''address''] @ encodeAddress a)"
  by (simp add: encodeFunctionCall_def encodeParameters_def encodeParameter_def)

lemma encodeFunctionCall_bytes32:
  "encodeFunctionCall f [''bytes32''] [PString a] =
     Inr (getFunctionSelector f [''bytes32''] @ encodeBytes32 a)"
  by (simp add: encodeFunctionCall_def encodeParameters_def encodeParameter_def)

lemma makeEthCall_failure:
  assumes "core_failure (host_rpc h tr (eth_call_request ep to calldata)) decode e"
  shows "io_bind (makeEthCall h ep (Some to) calldata) (\<lambda>result. io_lift (on_string result decode)) tr =
           (Inl e, tr @ [eth_call_request ep to calldata])"
  using assms
  by (auto simp: core_failure_def makeEthCall_def makeRpcCall_def eth_call_request_def io_defs
      split: rpc_reply.splits)

lemma uint256_read_failure:
  assumes "encodeFunctionCall f tys vs = Inr calldata"
    and "core_failure (host_rpc h tr (eth_call_request ep to calldata)) (\<lambda>s. decodeUint256 s None) e"
  shows "io_bind (io_lift (encodeFunctionCall f tys vs)) (\<lambda>calldata.
         io_bind (makeEthCall h ep (Some to) calldata) (\<lambda>result.
         io_lift (on_string result (\<lambda>s. decodeUint256 s None)))) tr =
           (Inl e, tr @ [eth_call_request ep to calldata])"
  using makeEthCall_failure [OF assms(2)] assms(1) by (simp add: io_bind_def io_lift_def)

lemma feed_read_failure:
  assumes "core_failure (host_rpc h tr (eth_call_request ep to calldata)) decode_feed e"
  shows "io_bind (makeEthCall h ep (Some to) calldata) (\<lambda>result.
         io_bind (io_lift (on_string result decodeInt224)) (\<lambda>v.
         io_bind (io_lift (on_string result (\<lambda>s. decodeUint32 s (Some 64)))) (\<lambda>timestamp.
         io_return (v, timestamp)))) tr =
           (Inl e, tr @ [eth_call_request ep to calldata])"
  using assms
  by (auto simp: core_failure_def makeEthCall_def makeRpcCall_def eth_call_request_def io_defs
      on_string_def decode_feed_def split: rpc_reply.splits option.splits sum.splits)

lemma getMultipleFeeds_loop_returns:
  "\<exists>results' tr'. getMultipleFeeds_loop h cred fids results tr = (Inr results', tr')"
proof (induction fids arbitrary: results tr)
  case Nil
  show ?case by simp
next
  case (Cons fid fids)
  show ?case
  proof (cases "isValidBytes32 fid")
    case False
    then show ?thesis using Cons.IH by simp
  next
    case True
    let ?entry = "io_try
        (io_bind (readDataFeedById h (cred_rpcEndpoint cred) (cred_network cred) fid) (\<lambda>(v, ts).
         io_bind (io_lift (formatWithDecimals (PBigInt v) DEFAULT_DECIMALS)) (\<lambda>formatted.
         io_return \<lparr>dfv_feedId = fid, dfv_value = bigint_toString 10 v,
                    dfv_timestamp = ts, dfv_formattedValue = formatted,
                    dfv_decimals = DEFAULT_DECIMALS\<rparr>)))
        (\<lambda>error.
         io_return \<lparr>dfv_feedId = fid, dfv_value = ''0'', dfv_timestamp = 0,
                    dfv_formattedValue = ''0'', dfv_decimals = DEFAULT_DECIMALS\<rparr>)"
    have "\<exists>entry tr'. ?entry tr = (Inr entry, tr')"
      by (auto simp: io_try_def io_return_def split: prod.splits sum.splits)
    then obtain entry tr' where "?entry tr = (Inr entry, tr')" by blast
    then show ?thesis
      using True Cons.IH [of "results @ [entry]" tr'] by simp
  qed
qed

lemma getTokenBalance_failure:
  assumes "core_failure
      (host_rpc h tr (eth_call_request ep token
         (getFunctionSelector ''balanceOf'' [''address''] @ encodeAddress account)))
      (\<lambda>s. decodeUint256 s None) e"
  shows "getTokenBalance h ep token account tr =
      (Inl e, tr @ [eth_call_request ep token
         (getFunctionSelector ''balanceOf'' [''address''] @ encodeAddress account)])"
  unfolding getTokenBalance_def
  using assms by (rule uint256_read_failure [OF encodeFunctionCall_address])

lemma getTotalSupply_failure:
  assumes "core_failure
      (host_rpc h tr (eth_call_request ep token (getFunctionSelector ''totalSupply'' [])))
      (\<lambda>s. decodeUint256 s None) e"
  shows "getTotalSupply h ep token tr =
      (Inl e, tr @ [eth_call_request ep token (getFunctionSelector ''totalSupply'' [])])"
  unfolding getTotalSupply_def
  using assms by (rule uint256_read_failure [OF encodeFunctionCall_nullary])

lemma getUserStake_failure:
  assumes "core_failure
      (host_rpc h tr (eth_call_request ep pool
         (getFunctionSelector ''userStake'' [''address''] @ encodeAddress account)))
      (\<lambda>s. decodeUint256 s None) e"
  shows "getUserStake h ep pool account tr =
      (Inl e, tr @ [eth_call_request ep pool
         (getFunctionSelector ''userStake'' [''address''] @ encodeAddress account)])"
  unfolding getUserStake_def
  using assms by (rule uint256_read_failure [OF encodeFunctionCall_address])

lemma getTotalStake_failure:
  assumes "core_failure
      (host_rpc h tr (eth_call_request ep pool (getFunctionSelector ''totalStake'' [])))
      (\<lambda>s. decodeUint256 s None) e"
  shows "getTotalStake h ep pool tr =
      (Inl e, tr @ [eth_call_request ep pool (getFunctionSelector ''totalStake'' [])])"
  unfolding getTotalStake_def
  using assms by (rule uint256_read_failure [OF encodeFunctionCall_nullary])

lemma readDataFeedById_failure:
  assumes "getNetworkConfig nw = Inr (OwnEntry config)"
    and "core_failure
      (host_rpc h tr (eth_call_request ep (dapiServerAddress config)
         (getFunctionSelector ''readDataFeedWithId'' [''bytes32''] @ encodeBytes32 fid)))
      decode_feed e"
  shows "readDataFeedById h ep nw fid tr =
      (Inl e, tr @ [eth_call_request ep (dapiServerAddress config)
         (getFunctionSelector ''readDataFeedWithId'' [''bytes32''] @ encodeBytes32 fid)])"
  using assms feed_read_failure [of h tr ep "dapiServerAddress config" _ e]
  by (simp add: readDataFeedById_def encodeFunctionCall_bytes32 io_bind_def io_lift_def)

lemma readDAPIValue_failure:
  assumes "getNetworkConfig nw = Inr (OwnEntry config)"
    and "core_failure
      (host_rpc h tr (eth_call_request ep (dapiServerAddress config)
         (getFunctionSelector ''readDataFeedWithDapiName'' [''bytes32''] @
            encodeBytes32 (dapiNameToBytes32 dapiName))))
      decode_feed e"
  shows "readDAPIValue h ep nw dapiName tr =
      (Inl e, tr @ [eth_call_request ep (dapiServerAddress config)
         (getFunctionSelector ''readDataFeedWithDapiName'' [''bytes32''] @
            encodeBytes32 (dapiNameToBytes32 dapiName))])"
  using assms feed_read_failure [of h tr ep "dapiServerAddress config" _ e]
  by (simp add: readDAPIValue_def encodeFunctionCall_bytes32 io_bind_def io_lift_def)

lemma readDataFeedOperation_failure:
  assumes "isValidBytes32 fid" "getNetworkConfig (cred_network cred) = Inr (OwnEntry config)"
    and "core_failure
      (host_rpc h tr (eth_call_request (cred_rpcEndpoint cred) (dapiServerAddress config)
         (getFunctionSelector ''readDataFeedWithId'' [''bytes32''] @ encodeBytes32 fid)))
      decode_feed e"
  shows "readDataFeedOperation h cred fid tr =
      (Inl e, tr @ [eth_call_request (cred_rpcEndpoint cred) (dapiServerAddress config)
         (getFunctionSelector ''readDataFeedWithId'' [''bytes32''] @ encodeBytes32 fid)])"
  using readDataFeedById_failure [OF assms(2,3)] assms(1)
  by (simp add: readDataFeedOperation_def io_bind_def)

lemma getMultipleFeedsOperation_returns:
  "\<exists>results tr'. getMultipleFeedsOperation h cred feedIdsStr tr = (Inr results, tr')"
  using getMultipleFeeds_loop_returns by (simp add: getMultipleFeedsOperation_def)

lemma unreachable_core_failure:
  "core_failure (host_rpc unreachable_host tr req) decode refused"
  by (simp add: core_failure_def unreachable_host_def refused_def)

lemma ethereum_registered: "map_of NETWORK_CONFIGS ''ethereum'' = Some ethereum_config"
  by (simp add: NETWORK_CONFIGS_def)

lemma getNetworkConfig_ethereum: "getNetworkConfig ''ethereum'' = Inr (OwnEntry ethereum_config)"
  by (simp add: getNetworkConfig_def registry_lookup_def ethereum_registered)

lemma sample_feed_id_valid: "isValidBytes32 sample_feed_id"
  by (simp add: isValidBytes32_def sample_feed_id_def startsWith_def is_hex_char_def
      digit_in_def digit_val_def)

lemma sample_address_valid: "isValidAddress sample_address"
  by (simp add: isValidAddress_def sample_address_def startsWith_def is_hex_char_def
      digit_in_def digit_val_def)

lemma sample_feed_ids: "map js_trim (js_split CHR '','' sample_feed_id) = [sample_feed_id]"
proof -
  have "js_split CHR '','' sample_feed_id = [sample_feed_id]"
    by (rule js_split_no_sep) (simp add: sample_feed_id_def)
  moreover have "js_trim sample_feed_id = sample_feed_id"
    by (rule js_trim_self) (simp_all add: sample_feed_id_def is_space_def)
  ultimately show ?thesis by simp
qed

lemma staking_read_on_ethereum_issues_request:
  "getStakingInfoOperation unreachable_host ethereum_credentials [] =
     (Inl refused,
      [eth_call_request ''https://eth.llamarpc.com''
         ''0x6dd655f10d4b9E242aE186D9050B68F725c76d76'' (getFunctionSelector ''totalStake'' [])])"
proof -
  have c: "cred_network ethereum_credentials = ''ethereum''"
    "cred_rpcEndpoint ethereum_credentials = ''https://eth.llamarpc.com''"
    by (simp_all add: ethereum_credentials_def)
  have p: "stakingPoolAddress ethereum_config = Some ''0x6dd655f10d4b9E242aE186D9050B68F725c76d76''"
    by (simp add: ethereum_config_def)
  show ?thesis
    using getTotalStake_failure [OF unreachable_core_failure, where tr = "[]"
        and ep = "''https://eth.llamarpc.com''"
        and pool = "''0x6dd655f10d4b9E242aE186D9050B68F725c76d76''"]
    by (simp add: getStakingInfoOperation_def supportsStaking_def c ethereum_registered p io_bind_def)
qed

section \<open>The claims\<close>

text \<open>
  C1 (selector resolution never silently yields the all-zero selector for a signature outside
  the precomputed table). The code does the opposite: \<^verbatim>\<open>simpleKeccak256\<close> is a table lookup
  that falls back to \<^verbatim>\<open>'0x00000000'\<close>. The governance handlers call it with the signatures
  \<^verbatim>\<open>proposal(uint256)\<close> and \<^verbatim>\<open>castVote(uint256,uint8)\<close>, which the table does not hold: both
  resolve to the all-zero selector, without any failure.
\<close>

theorem selector_unknown_signature_is_zero:
  "getFunctionSelector ''proposal'' [''uint256''] = ''0x00000000'' \<and>
   getFunctionSelector ''castVote'' [''uint256'', ''uint8''] = ''0x00000000''"
  by (simp add: getFunctionSelector_def simpleKeccak256_def precomputed_def js_or_def js_slice_def)

text \<open>
  C2, as the code has it. The decode functions check no length. Let \<open>clean\<close> be the response
  without its \<^verbatim>\<open>0x\<close>, shorter than \<open>k + 64\<close> characters for the character offset \<open>k\<close>. When
  \<open>clean\<close> ends at or before \<open>k\<close> the slice is empty and the decode fails, with the
  SyntaxError of \<^verbatim>\<open>BigInt('0x')\<close> (\<^verbatim>\<open>decodeInt224\<close>: when \<open>clean\<close> is empty). When \<open>clean\<close>
  consists of hex digits and reaches beyond \<open>k\<close>, the decode does not fail: it returns the
  value of the digits that are there, from \<open>k\<close> to the end.
\<close>

theorem decode_short_response:
  assumes "clean = strip0x hex" "length clean < k + 64"
  shows "(length clean \<le> k \<longrightarrow>
            decodeUint256 hex (Some (int k)) = Inl SyntaxError \<and>
            decodeUint32 hex (Some (int k)) = Inl SyntaxError) \<and>
         (clean = [] \<longrightarrow> decodeInt224 hex = Inl SyntaxError) \<and>
         (k < length clean \<and> list_all is_hex_char clean \<longrightarrow>
            decodeUint256 hex (Some (int k)) = Inr (int (digits_value 16 (drop k clean))) \<and>
            decodeUint32 hex (Some (int k)) =
              Inr (Number_of_BigInt (int (digits_value 16 (drop k clean))))) \<and>
         (clean \<noteq> [] \<and> list_all is_hex_char clean \<and> k = 0 \<longrightarrow>
            decodeInt224 hex = Inr (int (digits_value 16 clean)))"
proof (intro conjI impI)
  assume "length clean \<le> k"
  then have "take 64 (drop k (strip0x hex)) = []" using assms(1) by simp
  then show "decodeUint256 hex (Some (int k)) = Inl SyntaxError"
    and "decodeUint32 hex (Some (int k)) = Inl SyntaxError"
    using StringToBigInt_0x by (simp_all add: decodeUint256_def decodeUint32_def js_slice_word)
next
  assume "clean = []"
  then show "decodeInt224 hex = Inl SyntaxError"
    using StringToBigInt_0x js_slice_word [of clean 0] assms(1) by (simp add: decodeInt224_def)
next
  assume a: "k < length clean \<and> list_all is_hex_char clean"
  let ?w = "take 64 (drop k clean)"
  have w: "?w = drop k clean" using assms(2) by simp
  have "drop k clean \<noteq> []" using a by simp
  moreover have "list_all (digit_in 16) (drop k clean)"
    using a list_all_take_drop [of "digit_in 16" clean "length clean" k] by (simp add: is_hex_char_eq)
  ultimately have "StringToBigInt (''0x'' @ drop k clean) = Inr (int (digits_value 16 (drop k clean)))"
    by (rule StringToBigInt_hex)
  then show "decodeUint256 hex (Some (int k)) = Inr (int (digits_value 16 (drop k clean)))"
    and "decodeUint32 hex (Some (int k)) = Inr (Number_of_BigInt (int (digits_value 16 (drop k clean))))"
    using w assms(1) by (simp_all add: decodeUint256_def decodeUint32_def js_slice_word)
next
  assume a: "clean \<noteq> [] \<and> list_all is_hex_char clean \<and> k = 0"
  then have "take 64 clean = clean" using assms(2) by simp
  moreover have "StringToBigInt (''0x'' @ clean) = Inr (int (digits_value 16 clean))"
    using a by (intro StringToBigInt_hex) (simp_all add: is_hex_char_eq)
  ultimately show "decodeInt224 hex = Inr (int (digits_value 16 clean))"
    using js_slice_word [of clean 0] assms(1) by (simp add: decodeInt224_def)
qed

theorem decode_short_response_witness:
  "''ff'' = strip0x ''0xff'' \<and> length ''ff'' < 0 + 64 \<and> 0 < length ''ff'' \<and>
   list_all is_hex_char ''ff'' \<and> ''ff'' \<noteq> [] \<and>
   decodeUint256 ''0xff'' (Some 0) = Inr 255 \<and>
   decodeUint32 ''0xff'' (Some 0) = Inr 255 \<and>
   decodeInt224 ''0xff'' = Inr 255 \<and>
   [] = strip0x ''0x'' \<and> length (strip0x ''0x'') \<le> 0 \<and>
   decodeUint256 ''0x'' (Some 0) = Inl SyntaxError \<and>
   decodeUint32 ''0x'' (Some 0) = Inl SyntaxError \<and>
   decodeInt224 ''0x'' = Inl SyntaxError"
proof -
  have a: "''ff'' = strip0x ''0xff''" "[] = strip0x ''0x''"
    by (simp_all add: strip0x_def startsWith_def)
  have b: "length ''ff'' < 0 + 64" "length ([] :: string) < 0 + 64" by simp_all
  have c: "list_all is_hex_char ''ff''"
    by (simp add: is_hex_char_def digit_in_def digit_val_def)
  have d: "digits_value 16 ''ff'' = 255"
    by (simp add: digits_value_def digit_num_def digit_val_def)
  have e: "Number_of_BigInt 255 = 255"
    by (simp add: Number_of_BigInt_def bit_length.simps)
  from decode_short_response [OF a(1) b(1)] decode_short_response [OF a(2) b(2)] a c d e
  show ?thesis by simp
qed

text \<open>The claim as stated fails: the one-byte response \<^verbatim>\<open>0xff\<close> decodes to 255.\<close>

theorem decode_short_response_counterexample:
  "length (strip0x ''0xff'') < 0 + 64 \<and>
   decodeUint256 ''0xff'' (Some 0) = Inr 255 \<and>
   decodeUint256 ''0xff'' None = Inr 255 \<and>
   decodeInt224 ''0xff'' = Inr 255 \<and>
   decodeUint32 ''0xff'' (Some 0) = Inr 255"
proof -
  have s: "strip0x ''0xff'' = ''ff''"
    by (simp add: strip0x_def startsWith_def)
  have w: "js_slice ''ff'' 0 64 = ''ff''"
    by (simp add: js_slice_def)
  have "StringToBigInt (''0x'' @ ''ff'') = Inr (int (digits_value 16 ''ff''))"
    by (rule StringToBigInt_hex) (simp_all add: digit_in_def digit_val_def)
  then have v: "StringToBigInt ''0xff'' = Inr 255"
    by (simp add: digits_value_def digit_num_def digit_val_def)
  have n: "Number_of_BigInt 255 = 255"
    by (simp add: Number_of_BigInt_def bit_length.simps)
  show ?thesis
    by (simp add: decodeUint256_def decodeUint32_def decodeInt224_def s w v n)
qed

text \<open>
  C3 (round trip). For every non-negative integer \<open>v\<close> and every decimals count \<open>d\<close> up to
  18, \<^verbatim>\<open>formatWithDecimals(v, d)\<close> returns a string, and \<^verbatim>\<open>parseWithDecimals\<close> of that string
  with the same \<open>d\<close> returns \<open>v\<close>.
\<close>

theorem format_parse_roundtrip:
  assumes "0 \<le> v" "d \<le> 18"
  shows "\<exists>s. formatWithDecimals (PBigInt v) d = Inr s \<and> parseWithDecimals s d = Inr v"
proof -
  define ip where "ip = nat (v div 10 ^ d)"
  define fp where "fp = nat (v mod 10 ^ d)"
  have D: "(0::int) < 10 ^ d" by simp
  have "v = v div 10 ^ d * 10 ^ d + v mod 10 ^ d"
    by (rule div_mult_mod_eq [symmetric])
  then have ipfp: "v = int ip * 10 ^ d + int fp"
    using assms(1) by (simp add: ip_def fp_def pos_imp_zdiv_nonneg_iff)
  have dv: "bigint_div v (10 ^ d) = int ip" "bigint_rem v (10 ^ d) = int fp"
    using assms(1) D by (simp_all add: bigint_div_nonneg bigint_rem_nonneg ip_def fp_def pos_imp_zdiv_nonneg_iff)
  let ?I = "to_digits 10 ip"
  show ?thesis
  proof (cases "fp = 0")
    case True
    then have "formatWithDecimals (PBigInt v) d = Inr ?I"
      by (simp add: formatWithDecimals_def dv bigint_toString_nonneg)
    moreover have "parseWithDecimals ?I d = Inr v"
      using True ipfp by (simp add: parse_integer_only decimal_print_facts)
    ultimately show ?thesis by blast
  next
    case False
    let ?F = "padStart d CHR ''0'' (to_digits 10 fp)"
    have "int fp < 10 ^ d" using D by (simp add: fp_def)
    then have lt: "fp < 10 ^ d" by (metis of_nat_less_iff of_nat_numeral of_nat_power)
    have dpos: "0 < d" using False lt by (cases d) auto
    note F = padStart_digits [OF lt dpos]
    have nz: "\<exists>c \<in> set ?F. c \<noteq> CHR ''0''"
      using False F(3) digits_value_all_zero [of ?F 10] by auto
    have "formatWithDecimals (PBigInt v) d = Inr (?I @ ''.'' @ strip_trailing_zeros ?F)"
      using False by (simp add: formatWithDecimals_def dv bigint_toString_nonneg Let_def)
    moreover have "parseWithDecimals (?I @ ''.'' @ strip_trailing_zeros ?F) d = Inr v"
      using parse_with_fraction [OF decimal_print_facts(1,2) F(2,1) nz, of ip]
      by (simp add: decimal_print_facts F(3) ipfp)
    ultimately show ?thesis by blast
  qed
qed

theorem format_parse_roundtrip_witness:
  "(0::int) \<le> 15 \<and> (1::nat) \<le> 18 \<and>
   formatWithDecimals (PBigInt 15) 1 = Inr ''1.5'' \<and> parseWithDecimals ''1.5'' 1 = Inr 15"
proof -
  have f: "formatWithDecimals (PBigInt 15) 1 = Inr ''1.5''"
    by (simp add: formatWithDecimals_def js_eval)
  from format_parse_roundtrip [of 15 1] f show ?thesis by simp
qed


text \<open>
  C4 (the sign of a negative value goes to the integer part only). The three formatting
  functions divide with BigInt's truncating division and print the remainder as it is, so
  for a negative value the remainder carries the minus sign into the fractional digits, and
  the integer part loses it when it is zero: \<open>-15\<close> with one decimal is printed
  \<^verbatim>\<open>-1.-5\<close>, \<open>-5\<close> is printed \<^verbatim>\<open>0.-5\<close>, and one negative wei is \<^verbatim>\<open>0.0000000000000000-1\<close>.
\<close>

theorem negative_format_sign_in_fraction:
  "formatValue (- 15) 1 = ''-1.-5'' \<and>
   formatWithDecimals (PBigInt (- 15)) 1 = Inr ''-1.-5'' \<and>
   formatWithDecimals (PBigInt (- 5)) 1 = Inr ''0.-5'' \<and>
   weiToEther (PBigInt (- 1)) = Inr ''0.0000000000000000-1''"
  by (simp add: formatValue_def formatWithDecimals_def weiToEther_def js_eval)

text \<open>
  C5, as the code has it. For every function name and every list of \<open>N\<close> type tags and values
  where each value fits one word of its tag (\<^const>\<open>fits_word\<close>: the tags are \<^verbatim>\<open>address\<close>,
  \<^verbatim>\<open>uint256\<close> or \<^verbatim>\<open>bytes32\<close>, the lists have the same length), \<^verbatim>\<open>encodeFunctionCall\<close> returns
  the 10-character selector followed by one 64-character word per parameter, in order:
  \<open>10 + 64 * N\<close> characters. The encoder checks no size, so a longer value gives a longer
  string.
\<close>

theorem call_data_length:
  assumes "list_all2 fits_word types vals"
  shows "\<exists>ws. list_all2 (\<lambda>(ty, v) w. encodeParameter ty v = Inr w \<and> length w = 64) (zip types vals) ws \<and>
              encodeFunctionCall functionName types vals =
                Inr (getFunctionSelector functionName types @ concat ws) \<and>
              length (getFunctionSelector functionName types) = 10 \<and>
              length (getFunctionSelector functionName types @ concat ws) = 10 + 64 * length types"
proof -
  obtain ws where ws:
    "list_all2 (\<lambda>(ty, v) w. encodeParameter ty v = Inr w \<and> length w = 64) (zip types vals) ws"
    "encodeParameters_loop types vals [] = Inr ([] @ concat ws)"
    "list_all (\<lambda>w. length w = 64) ws"
    using encodeParameters_loop_words [OF assms, of "[]"] by blast
  have "length types = length vals"
    using assms by (rule list_all2_lengthD)
  then have n: "length ws = length types"
    using list_all2_lengthD [OF ws(1)] by simp
  have "length (concat ws) = 64 * length types"
    using n ws(3) by (simp add: length_concat_words)
  moreover have "encodeFunctionCall functionName types vals =
                   Inr (getFunctionSelector functionName types @ concat ws)"
    using ws(2) by (simp add: encodeFunctionCall_def encodeParameters_def)
  ultimately show ?thesis
    using ws(1) by (auto simp: length_selector)
qed

theorem call_data_length_witness:
  "list_all2 fits_word [''address'', ''uint256'']
     [PString ''0x742d35Cc6634C0532925a3b844Bc9e7595f1dE00'', PString ''1000000000000000000''] \<and>
   (\<exists>s. encodeFunctionCall ''transfer'' [''address'', ''uint256'']
          [PString ''0x742d35Cc6634C0532925a3b844Bc9e7595f1dE00'', PString ''1000000000000000000''] =
          Inr s \<and> length s = 138)"
proof -
  have "StringToBigInt ''1000000000000000000'' = Inr (int (digits_value 10 ''1000000000000000000''))"
    by (rule StringToBigInt_decimal) (simp_all add: digit_in_def digit_val_def)
  then have u: "StringToBigInt ''1000000000000000000'' = Inr 1000000000000000000"
    by (simp add: digits_value_def digit_num_def digit_val_def)
  have h: "list_all2 fits_word [''address'', ''uint256'']
     [PString ''0x742d35Cc6634C0532925a3b844Bc9e7595f1dE00'', PString ''1000000000000000000'']"
    by (simp add: fits_word_def strip0x_def startsWith_def u)
  from call_data_length [OF h, of "''transfer''"] h show ?thesis by auto
qed

text \<open>
  The claim as stated fails: a \<^verbatim>\<open>bytes32\<close> given as a plain string of 33 characters is encoded
  in 66 characters, and the call data has 76 characters, not 74.
\<close>

theorem call_data_length_counterexample:
  "map_sum id length
     (encodeFunctionCall ''readDataFeedWithDapiName'' [''bytes32'']
        [PString ''AAAAAAAAAAAAAAAAAAAAAAAAAAAAAAAAA'']) = Inr 76 \<and>
   (76 :: nat) \<noteq> 10 + 64 * length [''bytes32'']"
  by (simp add: encodeFunctionCall_def encodeParameters_def encodeParameter_def encodeBytes32_def
      startsWith_def padEnd_def length_buffer_hex length_selector)

text \<open>
  C6, as the code has it. \<^verbatim>\<open>encodeUint256\<close> checks no range. For a value \<open>v\<close> in
  \<open>[0, 2^256)\<close> (given as a bigint, an integral number or a string that \<^verbatim>\<open>BigInt\<close> parses) it
  returns the 64 hex digits of \<open>v\<close>, padded with zeros on the left. For a negative \<open>v\<close> or a
  \<open>v\<close> of more than 256 bits it does not fail either: it returns a string that is not a word
  of 64 hex digits (the minus sign stands inside the padding, or the digits are more than 64).
\<close>

theorem encodeUint256_word:
  assumes "BigInt p = Inr v"
  shows "(0 \<le> v \<and> v < 2 ^ 256 \<longrightarrow>
            (\<exists>w. encodeUint256 p = Inr w \<and> length w = 64 \<and> list_all (digit_in 16) w \<and>
                 int (digits_value 16 w) = v \<and>
                 w = replicate (64 - length (to_digits 16 (nat v))) CHR ''0'' @
                       to_digits 16 (nat v))) \<and>
         (v < 0 \<or> 2 ^ 256 \<le> v \<longrightarrow>
            (\<exists>w. encodeUint256 p = Inr w \<and> \<not> (length w = 64 \<and> list_all (digit_in 16) w)))"
proof (intro conjI impI)
  assume "0 \<le> v \<and> v < 2 ^ 256"
  then show "\<exists>w. encodeUint256 p = Inr w \<and> length w = 64 \<and> list_all (digit_in 16) w \<and>
                 int (digits_value 16 w) = v \<and>
                 w = replicate (64 - length (to_digits 16 (nat v))) CHR ''0'' @
                       to_digits 16 (nat v)"
    using encodeUint256_fits [OF assms] by simp
next
  assume o: "v < 0 \<or> 2 ^ 256 \<le> v"
  let ?w = "padStart 64 CHR ''0'' (bigint_toString 16 v)"
  have enc: "encodeUint256 p = Inr ?w"
    by (simp add: encodeUint256_def assms)
  have "\<not> (length ?w = 64 \<and> list_all (digit_in 16) ?w)"
  proof (cases "v < 0")
    case True
    then have "CHR ''-'' \<in> set ?w"
      by (simp add: padStart_def bigint_toString_def)
    then show ?thesis using digit_in_minus by (auto simp: list_all_iff)
  next
    case False
    with o have "2 ^ 256 \<le> v" by simp
    then have "(2::nat) ^ 256 \<le> nat v" by (simp add: le_nat_iff)
    then have "(16::nat) ^ 64 \<le> nat v" by simp
    then have "64 < length (to_digits 16 (nat v))"
      by (intro length_to_digits_lower) simp_all
    then show ?thesis using False by (simp add: padStart_def bigint_toString_def)
  qed
  with enc show "\<exists>w. encodeUint256 p = Inr w \<and> \<not> (length w = 64 \<and> list_all (digit_in 16) w)"
    by blast
qed

theorem encodeUint256_word_witness:
  "BigInt (PString ''255'') = Inr 255 \<and> (0::int) \<le> 255 \<and> (255::int) < 2 ^ 256 \<and>
   (\<exists>w. encodeUint256 (PString ''255'') = Inr w \<and> length w = 64 \<and>
        list_all (digit_in 16) w \<and> int (digits_value 16 w) = 255) \<and>
   BigInt (PBigInt (- 1)) = Inr (- 1) \<and> (- 1 :: int) < 0 \<and>
   (\<exists>w. encodeUint256 (PBigInt (- 1)) = Inr w \<and> \<not> (length w = 64 \<and> list_all (digit_in 16) w))"
proof -
  have a: "BigInt (PString ''255'') = Inr 255"
    by (simp add: js_eval)
  have b: "BigInt (PBigInt (- 1)) = Inr (- 1)" by simp
  from encodeUint256_word [OF a] encodeUint256_word [OF b] a b show ?thesis by simp
qed

text \<open>The claim as stated fails: encoding \<open>-1\<close> returns a string.\<close>

theorem encodeUint256_no_range_check_counterexample:
  "(- 1 :: int) < 0 \<and>
   encodeUint256 (PBigInt (- 1)) =
     Inr ''00000000000000000000000000000000000000000000000000000000000000-1''"
  by (simp add: encodeUint256_def js_eval)




text \<open>
  C8, as the code has it. With a network other than \<^verbatim>\<open>ethereum\<close>, every staking read
  (\<^verbatim>\<open>getStakingInfo\<close>, \<^verbatim>\<open>getAPR\<close>, \<^verbatim>\<open>getUserStake\<close>, \<^verbatim>\<open>getRewards\<close>) and every governance
  read (\<^verbatim>\<open>getProposals\<close>, \<^verbatim>\<open>getProposal\<close>, \<^verbatim>\<open>getVoteRecord\<close>, \<^verbatim>\<open>getTreasury\<close>) fails with
  the trace of requests unchanged: no RPC or REST request is issued. The error is the
  unsupported-network error of the handler, except that \<^verbatim>\<open>getUserStake\<close> and
  \<^verbatim>\<open>getRewards\<close> check the user address first and throw the invalid-address error for a
  malformed one. \<^verbatim>\<open>supportsStaking\<close> and \<^verbatim>\<open>supportsDAO\<close> hold exactly for \<^verbatim>\<open>ethereum\<close>.
\<close>

theorem unsupported_network_gate:
  assumes "cred_network cred \<noteq> ''ethereum''"
  shows "getStakingInfoOperation h cred tr = (Inl (staking_unsupported (cred_network cred)), tr) \<and>
         getAPROperation h cred tr = (Inl (staking_unsupported (cred_network cred)), tr) \<and>
         getUserStakeOperation h cred userAddress tr =
           (Inl (if isValidAddress userAddress then staking_unsupported (cred_network cred)
                 else invalid_user_address), tr) \<and>
         getRewardsOperation h cred userAddress tr =
           (Inl (if isValidAddress userAddress then staking_unsupported (cred_network cred)
                 else invalid_user_address), tr) \<and>
         getProposalsOperation h cred st limit tr = (Inl governance_unsupported, tr) \<and>
         getProposalOperation h cred pid tr = (Inl governance_unsupported, tr) \<and>
         getVoteRecordOperation h cred voter tr = (Inl governance_unsupported, tr) \<and>
         getTreasuryOperation h cred tr = (Inl governance_unsupported, tr) \<and>
         supportsStaking nw = (nw = ''ethereum'') \<and> supportsDAO nw = (nw = ''ethereum'')"
  using assms
  by (simp add: getStakingInfoOperation_def getAPROperation_def getUserStakeOperation_def
      getRewardsOperation_def getProposalsOperation_def getProposalOperation_def
      getVoteRecordOperation_def getTreasuryOperation_def supportsStaking_def supportsDAO_def
      io_throw_def)

theorem unsupported_network_gate_witness:
  "cred_network polygon_credentials \<noteq> ''ethereum'' \<and>
   getStakingInfoOperation unreachable_host polygon_credentials [] =
     (Inl (staking_unsupported ''polygon''), []) \<and>
   getAPROperation unreachable_host polygon_credentials [] =
     (Inl (staking_unsupported ''polygon''), []) \<and>
   getUserStakeOperation unreachable_host polygon_credentials sample_address [] =
     (Inl (staking_unsupported ''polygon''), []) \<and>
   getRewardsOperation unreachable_host polygon_credentials sample_address [] =
     (Inl (staking_unsupported ''polygon''), []) \<and>
   getProposalsOperation unreachable_host polygon_credentials ''all'' 10 [] =
     (Inl governance_unsupported, []) \<and>
   getProposalOperation unreachable_host polygon_credentials ''1'' [] =
     (Inl governance_unsupported, []) \<and>
   getVoteRecordOperation unreachable_host polygon_credentials sample_address [] =
     (Inl governance_unsupported, []) \<and>
   getTreasuryOperation unreachable_host polygon_credentials [] =
     (Inl governance_unsupported, []) \<and>
   \<not> supportsStaking ''polygon'' \<and> \<not> supportsDAO ''polygon''"
proof -
  have n: "cred_network polygon_credentials = ''polygon''"
    by (simp add: polygon_credentials_def)
  then have h: "cred_network polygon_credentials \<noteq> ''ethereum''" by simp
  from unsupported_network_gate [OF h, of unreachable_host "[]" sample_address "''all''" 10
      "''1''" sample_address "''polygon''"]
  show ?thesis by (simp add: n sample_address_valid)
qed

text \<open>
  The claim as stated fails in the kind of the error: on \<^verbatim>\<open>polygon\<close>, \<^verbatim>\<open>getUserStake\<close> with
  a malformed address throws the invalid-address error, not the unsupported-network one.
\<close>

theorem unsupported_network_error_kind_counterexample:
  "cred_network polygon_credentials \<noteq> ''ethereum'' \<and>
   getUserStakeOperation unreachable_host polygon_credentials ''not-an-address'' [] =
     (Inl invalid_user_address, []) \<and>
   invalid_user_address \<noteq> staking_unsupported ''polygon''"
  by (simp add: polygon_credentials_def getUserStakeOperation_def isValidAddress_def
      startsWith_def io_throw_def invalid_user_address_def staking_unsupported_def)

text \<open>
  C9 (a core failure during a read reaches the caller; no helper swallows it and returns a
  zero value as if the read had succeeded). The batch handler does the opposite: when the node
  cannot be reached, the read of the feed fails with the RPC error and the single-feed handler
  \<^verbatim>\<open>readDataFeedOperation\<close> fails with that error, but \<^verbatim>\<open>getMultipleFeedsOperation\<close>, after the
  same request, returns an entry of zeros for the feed. Its \<^verbatim>\<open>catch\<close> block is commented
  \<^verbatim>\<open>Skip failed feeds\<close>, and pushes the entry.
\<close>

theorem multiple_feeds_failure_gives_zero_entry:
  "core_failure
     (host_rpc unreachable_host []
        (eth_call_request ''https://eth.llamarpc.com''
           ''0x3dEC619dc529363767dEe9E71d8dD1A5bc270D76''
           (getFunctionSelector ''readDataFeedWithId'' [''bytes32''] @
              encodeBytes32 sample_feed_id)))
     decode_feed refused \<and>
   readDataFeedOperation unreachable_host ethereum_credentials sample_feed_id [] =
     (Inl refused,
      [eth_call_request ''https://eth.llamarpc.com''
         ''0x3dEC619dc529363767dEe9E71d8dD1A5bc270D76''
         (getFunctionSelector ''readDataFeedWithId'' [''bytes32''] @
            encodeBytes32 sample_feed_id)]) \<and>
   getMultipleFeedsOperation unreachable_host ethereum_credentials sample_feed_id [] =
     (Inr [\<lparr>dfv_feedId = sample_feed_id, dfv_value = ''0'', dfv_timestamp = 0,
            dfv_formattedValue = ''0'', dfv_decimals = 18\<rparr>],
      [eth_call_request ''https://eth.llamarpc.com''
         ''0x3dEC619dc529363767dEe9E71d8dD1A5bc270D76''
         (getFunctionSelector ''readDataFeedWithId'' [''bytes32''] @
            encodeBytes32 sample_feed_id)])"
proof -
  have c: "cred_network ethereum_credentials = ''ethereum''"
    "cred_rpcEndpoint ethereum_credentials = ''https://eth.llamarpc.com''"
    by (simp_all add: ethereum_credentials_def)
  have a: "dapiServerAddress ethereum_config = ''0x3dEC619dc529363767dEe9E71d8dD1A5bc270D76''"
    by (simp add: ethereum_config_def)
  have r: "readDataFeedById unreachable_host ''https://eth.llamarpc.com'' ''ethereum''
          sample_feed_id [] =
      (Inl refused,
       [eth_call_request ''https://eth.llamarpc.com''
          ''0x3dEC619dc529363767dEe9E71d8dD1A5bc270D76''
          (getFunctionSelector ''readDataFeedWithId'' [''bytes32''] @
             encodeBytes32 sample_feed_id)])"
    using readDataFeedById_failure [OF getNetworkConfig_ethereum unreachable_core_failure,
        where tr = "[]" and ep = "''https://eth.llamarpc.com''" and fid = sample_feed_id]
    by (simp add: a)
  have s: "readDataFeedOperation unreachable_host ethereum_credentials sample_feed_id [] =
      (Inl refused,
       [eth_call_request ''https://eth.llamarpc.com''
          ''0x3dEC619dc529363767dEe9E71d8dD1A5bc270D76''
          (getFunctionSelector ''readDataFeedWithId'' [''bytes32''] @
             encodeBytes32 sample_feed_id)])"
    using r by (simp add: readDataFeedOperation_def sample_feed_id_valid c io_bind_def)
  have m: "getMultipleFeedsOperation unreachable_host ethereum_credentials sample_feed_id [] =
     (Inr [\<lparr>dfv_feedId = sample_feed_id, dfv_value = ''0'', dfv_timestamp = 0,
            dfv_formattedValue = ''0'', dfv_decimals = 18\<rparr>],
      [eth_call_request ''https://eth.llamarpc.com''
         ''0x3dEC619dc529363767dEe9E71d8dD1A5bc270D76''
         (getFunctionSelector ''readDataFeedWithId'' [''bytes32''] @
            encodeBytes32 sample_feed_id)])"
    using r
    by (simp add: getMultipleFeedsOperation_def sample_feed_ids c io_try_def io_bind_def
        io_return_def DEFAULT_DECIMALS_def sample_feed_id_valid)
  show ?thesis
    using s m by (simp add: unreachable_core_failure)
qed

text \<open>
  C10 (for a name that is no key of the registry the explorer helpers return the empty string
  and \<^verbatim>\<open>getNetworkConfig\<close> throws; for a key they return the explorer URL and the path). The
  test \<^verbatim>\<open>!config\<close> of the three functions misses the names of the members of
  \<^verbatim>\<open>Object.prototype\<close>: \<^verbatim>\<open>constructor\<close> is no key of the registry, the lookup gives the inherited
  member, \<^verbatim>\<open>getExplorerTxUrl\<close> and \<^verbatim>\<open>getExplorerAddressUrl\<close> return a text that begins with
  \<^verbatim>\<open>undefined\<close>, and \<^verbatim>\<open>getNetworkConfig\<close> returns the member without throwing.
\<close>

theorem explorer_url_inherited_name:
  "map_of NETWORK_CONFIGS ''constructor'' = None \<and>
   getExplorerTxUrl ''constructor'' ''0x123abc'' = ''undefined/tx/0x123abc'' \<and>
   getExplorerAddressUrl ''constructor'' ''0x123abc'' = ''undefined/address/0x123abc'' \<and>
   getNetworkConfig ''constructor'' = Inr (InheritedMember ''constructor'')"
proof -
  have n: "map_of NETWORK_CONFIGS ''constructor'' = None"
    by (simp add: NETWORK_CONFIGS_def)
  have l: "registry_lookup ''constructor'' = Some (InheritedMember ''constructor'')"
    by (simp add: registry_lookup_def n Object_prototype_names_def)
  show ?thesis
    by (simp add: n l getExplorerTxUrl_def getExplorerAddressUrl_def getNetworkConfig_def
        template_text_def)
qed

end
